theory Spec2Isabelle
  imports Main "HOL-Library.Word"
begin

section \<open>The JavaScript values the support-email utility handles\<close>

text \<open>
  \<^verbatim>\<open>src/utils/supportEmail.ts\<close> discriminates its two debug-info shapes at run time, by
  probing for a key (\<^verbatim>\<open>'flowType' in info\<close>), and it tests fields for truthiness
  (\<^verbatim>\<open>a || b\<close>, \<^verbatim>\<open>if (a)\<close>). An input is therefore modelled as the JavaScript value
  it is at run time: an object is a finite map from property names to values, where a key
  may be missing, or present with the value \<^verbatim>\<open>undefined\<close>. A string is the sequence of
  UTF-16 code units that it is in JavaScript, so that \<^verbatim>\<open>slice\<close>, \<^verbatim>\<open>substring\<close> and indexing
  count what the source counts and a lone surrogate can be written down. Property names
  stay HOL strings: the source only ever names them by ASCII literals.
\<close>

type_synonym code_unit = "16 word"

type_synonym js_string = "code_unit list"

text \<open>A string literal of the source: the code unit of each of its characters.\<close>

definition unit_of :: "char \<Rightarrow> code_unit" where
  "unit_of c = of_nat (of_char c)"

fun lit :: "string \<Rightarrow> js_string" where
  "lit [] = []"
| "lit (c # cs) = unit_of c # lit cs"

datatype js_value =
    JUndefined
  | JNull
  | JString js_string
  | JObject "string \<Rightarrow> js_value option"

datatype js_error =
    TypeError
  | URIError
  | LaunchError string


text \<open>Truthiness (\<^verbatim>\<open>ToBoolean\<close>): the empty string, \<^verbatim>\<open>undefined\<close> and \<^verbatim>\<open>null\<close> are falsy.\<close>

fun truthy :: "js_value \<Rightarrow> bool" where
  "truthy JUndefined = False"
| "truthy JNull = False"
| "truthy (JString s) = (s \<noteq> [])"
| "truthy (JObject m) = True"

text \<open>\<^verbatim>\<open>a || b\<close> on values.\<close>

definition js_or :: "js_value \<Rightarrow> js_value \<Rightarrow> js_value" where
  "js_or a b = (if truthy a then a else b)"

text \<open>String conversion inside a template literal, \<^verbatim>\<open>`${v}`\<close>.\<close>

fun to_str :: "js_value \<Rightarrow> js_string" where
  "to_str JUndefined = lit ''undefined''"
| "to_str JNull = lit ''null''"
| "to_str (JString s) = s"
| "to_str (JObject m) = lit ''[object Object]''"

text \<open>
  \<^verbatim>\<open>key in v\<close>: a \<^verbatim>\<open>TypeError\<close> unless \<open>v\<close> is an object; on an object, whether the
  key is there (also when its value is \<^verbatim>\<open>undefined\<close>).
\<close>

fun js_in :: "string \<Rightarrow> js_value \<Rightarrow> js_error + bool" where
  "js_in k (JObject m) = Inr (m k \<noteq> None)"
| "js_in k JUndefined = Inl TypeError"
| "js_in k JNull = Inl TypeError"
| "js_in k (JString s) = Inl TypeError"

text \<open>
  \<^verbatim>\<open>v.key\<close> for the keys this file reads. On an object a missing key reads as
  \<^verbatim>\<open>undefined\<close>. The functions below read a property of \<open>info\<close> only after an
  \<^verbatim>\<open>in\<close> test on it has succeeded, so the other cases are never reached from them; a
  string has none of these properties.
\<close>

fun js_get :: "js_value \<Rightarrow> string \<Rightarrow> js_value" where
  "js_get (JObject m) k = (case m k of None \<Rightarrow> JUndefined | Some v \<Rightarrow> v)"
| "js_get JUndefined k = JUndefined"
| "js_get JNull k = JUndefined"
| "js_get (JString s) k = JUndefined"

text \<open>A value of TypeScript type \<^verbatim>\<open>string | null\<close> or \<^verbatim>\<open>string | undefined\<close>.\<close>

fun or_null :: "js_string option \<Rightarrow> js_value" where
  "or_null None = JNull"
| "or_null (Some s) = JString s"

fun or_undefined :: "js_string option \<Rightarrow> js_value" where
  "or_undefined None = JUndefined"
| "or_undefined (Some s) = JString s"

subsection \<open>String primitives\<close>

text \<open>\<^verbatim>\<open>s.slice(a, b)\<close> and \<^verbatim>\<open>s.substring(a, b)\<close> for non-negative arguments.\<close>

definition js_slice :: "js_string \<Rightarrow> nat \<Rightarrow> nat \<Rightarrow> js_string" where
  "js_slice s a b = take (b - a) (drop a s)"

definition js_substring :: "js_string \<Rightarrow> nat \<Rightarrow> nat \<Rightarrow> js_string" where
  "js_substring s a b =
     (let a' = min a (length s); b' = min b (length s);
          lo = min a' b'; hi = max a' b'
      in take (hi - lo) (drop lo s))"

text \<open>\<^verbatim>\<open>s[i]\<close> appended to a string: out of range it reads \<^verbatim>\<open>undefined\<close>.\<close>

definition char_at :: "js_string \<Rightarrow> nat \<Rightarrow> js_string" where
  "char_at s i = (if i < length s then [s ! i] else (lit ''undefined''))"

text \<open>\<^verbatim>\<open>s.replace(/-/g, '')\<close>.\<close>

definition strip_hyphens :: "js_string \<Rightarrow> js_string" where
  "strip_hyphens s = filter (\<lambda>u. u \<noteq> unit_of (CHR ''-'')) s"

text \<open>\<^verbatim>\<open>lines.join(sep)\<close>.\<close>

fun js_join :: "js_string \<Rightarrow> js_string list \<Rightarrow> js_string" where
  "js_join sep [] = []"
| "js_join sep [x] = x"
| "js_join sep (x # y # ys) = x @ sep @ js_join sep (y # ys)"

definition line_break :: code_unit where
  "line_break = unit_of (CHR 0x0A)"

definition newline :: js_string where
  "newline = [line_break]"

text \<open>
  \<^verbatim>\<open>n.toString(radix)\<close> for a non-negative integer \<open>n\<close> (the source calls it with radix
  16 and 36 on \<^verbatim>\<open>Date.now()\<close>).
\<close>

definition digit_char :: "nat \<Rightarrow> code_unit" where
  "digit_char d = unit_of (''0123456789abcdefghijklmnopqrstuvwxyz'' ! d)"

function toString_radix :: "nat \<Rightarrow> nat \<Rightarrow> js_string" where
  "toString_radix radix n =
     (if radix < 2 \<or> n < radix then [digit_char n]
      else toString_radix radix (n div radix) @ [digit_char (n mod radix)])"
  by pat_completeness auto
termination
  by (relation "measure snd") auto

declare toString_radix.simps [simp del]

section \<open>Collaborators: context provider, clock, random source, mail launcher\<close>

text \<open>
  What the module reads from its imports and from the platform: \<^verbatim>\<open>expo-localization\<close>,
  \<^verbatim>\<open>expo-application\<close>, \<^verbatim>\<open>process.env\<close>, and the getters of \<^verbatim>\<open>./sharedState\<close>
  (\<^verbatim>\<open>getSandboxMode\<close>, \<^verbatim>\<open>getCurrentPartnerUserRef\<close>), which read ambient state of
  another module and are taken as parameters.
\<close>

record env =
  Localization_locale :: "js_string option"
  Localization_timezone :: "js_string option"
  Intl_timeZone :: js_string
  nativeApplicationVersion :: "js_string option"
  EXPO_PUBLIC_CDP_PROJECT_ID :: "js_string option"
  getSandboxMode :: bool
  getCurrentPartnerUserRef :: "js_string option"

text \<open>
  One value returned by \<^verbatim>\<open>Math.random()\<close>, through the three views the source takes of
  it: \<^verbatim>\<open>Math.floor(r * chars.length)\<close> with \<^verbatim>\<open>chars.length\<close> = 16, \<^verbatim>\<open>r.toString(16)\<close> and
  \<^verbatim>\<open>r.toString(36)\<close>. One reading of the system clock: the milliseconds \<^verbatim>\<open>Date.now()\<close>
  returns, and the text \<^verbatim>\<open>new Date().toISOString()\<close> returns at that instant.
\<close>

record js_random =
  floor16 :: nat
  toString16 :: js_string
  toString36 :: js_string

record instant =
  millis :: nat
  toISOString :: js_string

text \<open>
  The state the functions thread: the sequence of values the random source will return,
  the sequence of clock readings, and how many of each have been consumed.
\<close>

record world =
  randoms :: "nat \<Rightarrow> js_random"
  drawn :: nat
  clock :: "nat \<Rightarrow> instant"
  readings :: nat

definition Math_random :: "world \<Rightarrow> js_random \<times> world" where
  "Math_random w = (randoms w (drawn w), w\<lparr>drawn := Suc (drawn w)\<rparr>)"

definition Date_now :: "world \<Rightarrow> nat \<times> world" where
  "Date_now w = (millis (clock w (readings w)), w\<lparr>readings := Suc (readings w)\<rparr>)"

definition new_Date_toISOString :: "world \<Rightarrow> js_string \<times> world" where
  "new_Date_toISOString w = (toISOString (clock w (readings w)), w\<lparr>readings := Suc (readings w)\<rparr>)"


section \<open>src/utils/supportEmail.ts\<close>


definition PARTNER_NAME :: js_string where
  "PARTNER_NAME = lit ''Onramp V2 Demo''"

subsection \<open>generateDeviceId (lines 82-93)\<close>

definition hex_chars :: js_string where
  "hex_chars = lit ''0123456789abcdef''"

function generateDeviceId_loop :: "nat \<Rightarrow> js_string \<Rightarrow> world \<Rightarrow> js_string \<times> world" where
  "generateDeviceId_loop i result w =
     (if i < 32 then
        (let result1 = (if i = 8 \<or> i = 12 \<or> i = 16 \<or> i = 20 then result @ (lit ''-'') else result);
             rw = Math_random w
         in generateDeviceId_loop (i + 1) (result1 @ char_at hex_chars (floor16 (fst rw))) (snd rw))
      else (result, w))"
  by pat_completeness auto
termination
  by (relation "measure (\<lambda>(i, result, w). 32 - i)") auto

declare generateDeviceId_loop.simps [simp del]

definition generateDeviceId :: "world \<Rightarrow> js_string \<times> world" where
  "generateDeviceId w = generateDeviceId_loop 0 [] w"

subsection \<open>generateSimpleEntityHash (lines 99-104)\<close>

definition generateSimpleEntityHash :: "env \<Rightarrow> world \<Rightarrow> js_string \<times> world" where
  "generateSimpleEntityHash e w0 =
     (let partnerRef = to_str (js_or (or_null (getCurrentPartnerUserRef e)) (JString []));
          (now, w1) = Date_now w0;
          timestamp = toString_radix 16 now;
          (r, w2) = Math_random w1;
          random = js_substring (toString16 r) 2 10
      in (strip_hyphens (js_slice partnerRef 0 8 @ timestamp @ random), w2))"

subsection \<open>buildDebugBlock (lines 127-199)\<close>

text \<open>\<^verbatim>\<open>lines.push(l)\<close> and \<^verbatim>\<open>if (v) lines.push(`key: ${v}`)\<close>.\<close>

definition push :: "js_string list \<Rightarrow> js_string \<Rightarrow> js_string list" where
  "push lines l = lines @ [l]"

definition push_if :: "js_string list \<Rightarrow> string \<Rightarrow> js_value \<Rightarrow> js_string list" where
  "push_if lines key v = (if truthy v then push lines (lit key @ lit '': '' @ to_str v) else lines)"

text \<open>
  \<^verbatim>\<open>v || generate()\<close>: the right operand is evaluated, and the world advanced, only
  when the left one is falsy.
\<close>

definition or_generate ::
  "js_value \<Rightarrow> (world \<Rightarrow> js_string \<times> world) \<Rightarrow> world \<Rightarrow> js_value \<times> world" where
  "or_generate v gen w = (if truthy v then (v, w) else (let (s, w') = gen w in (JString s, w')))"

text \<open>The branch for a \<^verbatim>\<open>GuestCheckoutDebugInfo\<close>, lines 141-156.\<close>

definition guest_branch ::
  "env \<Rightarrow> js_string \<Rightarrow> js_value \<Rightarrow> js_string list \<Rightarrow> world \<Rightarrow> js_string list \<times> world" where
  "guest_branch e appId guestInfo lines0 w0 =
     (let lines1 = push lines0 (lit ''flowType: '' @ to_str (js_get guestInfo ''flowType''));
          lines2 = push lines1 (lit ''appId: '' @ to_str (js_or (js_get guestInfo ''appId'') (JString appId)));
          lines3 = push lines2 (lit ''partnerName: '' @
                     to_str (js_or (js_get guestInfo ''partnerName'') (JString PARTNER_NAME)));
          (deviceId, w1) = or_generate (js_get guestInfo ''deviceId'') generateDeviceId w0;
          lines4 = push lines3 (lit ''deviceId: '' @ to_str deviceId);
          (entityHash, w2) =
             or_generate (js_get guestInfo ''guestEntityHash'') (generateSimpleEntityHash e) w1;
          lines5 = push lines4 (lit ''guestEntityHash: '' @ to_str entityHash);
          lines6 = push lines5 (lit ''guestAmount: '' @
                     to_str (js_or (js_get guestInfo ''guestAmount'') (JString (lit ''0''))));
          lines7 = push lines6 (lit ''guestCurrency: '' @
                     to_str (js_or (js_get guestInfo ''guestCurrency'') (JString (lit ''USD''))));
          lines8 = push_if lines7 ''guestAsset'' (js_get guestInfo ''guestAsset'');
          lines9 = push_if lines8 ''guestNetwork'' (js_get guestInfo ''guestNetwork'');
          lines10 = push_if lines9 ''guestPaymentMethod'' (js_get guestInfo ''guestPaymentMethod'');
          lines11 = push_if lines10 ''guestTransactionIdAtCreate''
                      (js_get guestInfo ''guestTransactionIdAtCreate'')
      in (lines11, w2))"

text \<open>The branch for a \<^verbatim>\<open>TransactionDebugInfo\<close>, lines 158-179.\<close>

definition transaction_branch ::
  "js_string \<Rightarrow> js_value \<Rightarrow> js_string list \<Rightarrow> world \<Rightarrow> js_string list \<times> world" where
  "transaction_branch appId txInfo lines0 w0 =
     (let lines1 = push lines0 (lit ''flowType: authenticated'');
          lines2 = push lines1 (lit ''appId: '' @ appId);
          lines3 = push lines2 (lit ''partnerName: '' @ PARTNER_NAME);
          (deviceId, w1) = generateDeviceId w0;
          lines4 = push lines3 (lit ''deviceId: '' @ deviceId);
          lines5 = push_if lines4 ''transactionId'' (js_get txInfo ''transactionId'');
          lines6 = push_if lines5 ''status'' (js_get txInfo ''status'');
          lines7 = push_if lines6 ''purchaseCurrency'' (js_get txInfo ''purchaseCurrency'');
          lines8 = push_if lines7 ''purchaseNetwork'' (js_get txInfo ''purchaseNetwork'');
          lines9 = push_if lines8 ''purchaseAmount'' (js_get txInfo ''purchaseAmount'');
          lines10 = push_if lines9 ''paymentTotal'' (js_get txInfo ''paymentTotal'');
          lines11 = push_if lines10 ''paymentCurrency'' (js_get txInfo ''paymentCurrency'');
          lines12 = push_if lines11 ''paymentMethod'' (js_get txInfo ''paymentMethod'');
          lines13 = push_if lines12 ''walletAddress'' (js_get txInfo ''walletAddress'');
          lines14 = push_if lines13 ''txHash'' (js_get txInfo ''txHash'');
          lines15 = push_if lines14 ''createdAt'' (js_get txInfo ''createdAt'');
          lines16 = push_if lines15 ''partnerUserRef'' (js_get txInfo ''partnerUserRef'')
      in (lines16, w1))"

text \<open>
  Lines 183-196, after either branch. \<open>hasError\<close> and \<open>hasDebug\<close> are the results of
  \<^verbatim>\<open>'errorMessage' in info\<close> and \<^verbatim>\<open>'debugMessage' in info\<close>.
\<close>

definition common_fields ::
  "js_string \<Rightarrow> js_string \<Rightarrow> js_string \<Rightarrow> js_string \<Rightarrow> bool \<Rightarrow> js_value \<Rightarrow> js_value
     \<Rightarrow> js_string list \<Rightarrow> js_string list" where
  "common_fields appVersion timestamp locale timezone sandboxMode errorMessage debugMessage lines0 =
     (let lines1 = push lines0 (lit ''appVersion: '' @ appVersion);
          lines2 = push lines1 (lit ''timestamp: '' @ timestamp);
          lines3 = push lines2 (lit ''locale: '' @ locale);
          lines4 = push lines3 (lit ''timezone: '' @ timezone);
          lines5 = (if sandboxMode then push lines4 (lit ''environment: sandbox'') else lines4);
          lines6 = push_if lines5 ''errorMessage'' errorMessage;
          lines7 = push_if lines6 ''debugMessage'' debugMessage
      in push lines7 (lit ''---''))"

text \<open>
  The array \<open>lines\<close> as it stands at line 196, with the world after the calls made on the
  way. \<^verbatim>\<open>'flowType' in info\<close> raises for an \<open>info\<close> that is not an object; nothing else
  in the function can raise.
\<close>

definition debug_lines :: "env \<Rightarrow> js_value \<Rightarrow> world \<Rightarrow> js_error + (js_string list \<times> world)" where
  "debug_lines e info w0 =
     (let (timestamp, w1) = new_Date_toISOString w0;
          locale = to_str (js_or (or_null (Localization_locale e)) (JString (lit ''en-US'')));
          timezone = to_str (js_or (or_null (Localization_timezone e)) (JString (Intl_timeZone e)));
          appVersion = to_str (js_or (or_null (nativeApplicationVersion e)) (JString (lit ''unknown'')));
          appId = to_str (js_or (or_undefined (EXPO_PUBLIC_CDP_PROJECT_ID e)) (JString (lit ''unknown'')));
          sandboxMode = getSandboxMode e;
          lines0 = [lit ''--- Debug Information (please do not edit) ---'']
      in case js_in ''flowType'' info of
           Inl err \<Rightarrow> Inl err
         | Inr hasFlowType \<Rightarrow>
             (let (lines1, w2) =
                    (if hasFlowType then guest_branch e appId info lines0 w1
                     else transaction_branch appId info lines0 w1)
              in case js_in ''errorMessage'' info of
                   Inl err \<Rightarrow> Inl err
                 | Inr hasError \<Rightarrow>
                     (let errorMessage = (if hasError then js_get info ''errorMessage'' else JUndefined)
                      in case js_in ''debugMessage'' info of
                           Inl err \<Rightarrow> Inl err
                         | Inr hasDebug \<Rightarrow>
                             (let debugMessage =
                                    (if hasDebug then js_get info ''debugMessage'' else JUndefined)
                              in Inr (common_fields appVersion timestamp locale timezone sandboxMode
                                        errorMessage debugMessage lines1, w2)))))"

definition buildDebugBlock :: "env \<Rightarrow> js_value \<Rightarrow> world \<Rightarrow> js_error + (js_string \<times> world)" where
  "buildDebugBlock e info w0 =
     (case debug_lines e info w0 of
        Inl err \<Rightarrow> Inl err
      | Inr (lines, w1) \<Rightarrow> Inr (js_join newline lines, w1))"

subsection \<open>generateEntityHash (lines 205-223)\<close>

text \<open>
  The function returns \<^verbatim>\<open>info.guestEntityHash\<close> or \<^verbatim>\<open>info.transactionId\<close> as it is,
  or a string it builds. \<^verbatim>\<open>partnerRef.slice(0, 8)\<close> is reached only for a truthy
  \<open>partnerRef\<close>, which is then a string.
\<close>

definition generateEntityHash :: "env \<Rightarrow> js_value \<Rightarrow> world \<Rightarrow> js_error + (js_value \<times> world)" where
  "generateEntityHash e info w0 =
     (case js_in ''guestEntityHash'' info of
        Inl err \<Rightarrow> Inl err
      | Inr hasGuestEntityHash \<Rightarrow>
          if hasGuestEntityHash \<and> truthy (js_get info ''guestEntityHash'')
          then Inr (js_get info ''guestEntityHash'', w0)
          else
            (case js_in ''transactionId'' info of
               Inl err \<Rightarrow> Inl err
             | Inr hasTransactionId \<Rightarrow>
                 if hasTransactionId \<and> truthy (js_get info ''transactionId'')
                 then Inr (js_get info ''transactionId'', w0)
                 else
                   (let partnerRef = or_null (getCurrentPartnerUserRef e)
                    in if truthy partnerRef
                       then (let (now, w1) = Date_now w0;
                                 timestamp = toString_radix 36 now
                             in Inr (JString (js_slice (to_str partnerRef) 0 8 @ lit ''-'' @ timestamp), w1))
                       else (let (r, w1) = Math_random w0
                             in Inr (JString (js_substring (toString36 r) 2 15), w1)))))"

subsection \<open>The built-in encodeURIComponent\<close>

text \<open>
  \<^verbatim>\<open>encodeURIComponent\<close> keeps letters, digits and \<^verbatim>\<open>- _ . ! ~ * ' ( )\<close>, and writes every
  other code point as the \<^verbatim>\<open>%XX\<close> of its UTF-8 octets. A high surrogate followed by a low
  one is one code point; a surrogate on its own raises a \<^verbatim>\<open>URIError\<close>.
\<close>

definition is_high_surrogate :: "code_unit \<Rightarrow> bool" where
  "is_high_surrogate u = (0xD800 \<le> unat u \<and> unat u \<le> 0xDBFF)"

definition is_low_surrogate :: "code_unit \<Rightarrow> bool" where
  "is_low_surrogate u = (0xDC00 \<le> unat u \<and> unat u \<le> 0xDFFF)"









subsection \<open>openSupportEmail (lines 231-258)\<close>






subsection \<open>createDebugInfoFromTransaction (lines 263-293)\<close>

text \<open>
  \<^verbatim>\<open>typeof v === 'object'\<close> holds for an object and for \<^verbatim>\<open>null\<close>; \<^verbatim>\<open>v?.key\<close> is
  \<^verbatim>\<open>undefined\<close> for \<^verbatim>\<open>null\<close> and \<^verbatim>\<open>undefined\<close>.
\<close>

fun typeof_object :: "js_value \<Rightarrow> bool" where
  "typeof_object (JObject m) = True"
| "typeof_object JNull = True"
| "typeof_object JUndefined = False"
| "typeof_object (JString s) = False"

fun js_get_opt :: "js_value \<Rightarrow> string \<Rightarrow> js_value" where
  "js_get_opt JUndefined k = JUndefined"
| "js_get_opt JNull k = JUndefined"
| "js_get_opt (JString s) k = js_get (JString s) k"
| "js_get_opt (JObject m) k = js_get (JObject m) k"

text \<open>
  The parameter \<open>transaction\<close> is an object (its fields are read without a test); the
  result is the object literal of lines 276-292, every key of it present.
\<close>

definition createDebugInfoFromTransaction ::
  "env \<Rightarrow> (string \<Rightarrow> js_value option) \<Rightarrow> js_value \<Rightarrow> js_value" where
  "createDebugInfoFromTransaction e t errorMessage =
     (let transaction = JObject t
      in JObject
        [''transactionId'' \<mapsto> js_get transaction ''transaction_id'',
         ''status'' \<mapsto> js_get transaction ''status'',
         ''purchaseCurrency'' \<mapsto> js_get transaction ''purchase_currency'',
         ''purchaseNetwork'' \<mapsto> js_get transaction ''purchase_network'',
         ''purchaseAmount'' \<mapsto>
            (if typeof_object (js_get transaction ''purchase_amount'')
             then js_get_opt (js_get transaction ''purchase_amount'') ''value''
             else js_get transaction ''purchase_amount''),
         ''paymentTotal'' \<mapsto> js_get_opt (js_get transaction ''payment_total'') ''value'',
         ''paymentCurrency'' \<mapsto> js_get_opt (js_get transaction ''payment_total'') ''currency'',
         ''paymentMethod'' \<mapsto> js_get transaction ''payment_method'',
         ''walletAddress'' \<mapsto> js_get transaction ''wallet_address'',
         ''txHash'' \<mapsto> js_get transaction ''tx_hash'',
         ''createdAt'' \<mapsto> js_get transaction ''created_at'',
         ''partnerUserRef'' \<mapsto>
            js_or (js_or (js_get transaction ''partner_user_ref'') (or_null (getCurrentPartnerUserRef e)))
              JUndefined,
         ''errorMessage'' \<mapsto> errorMessage])"

section \<open>The format contract, in the words of the specification\<close>

text \<open>
  The specification speaks of fields that are present, of fallbacks, and of lines in a
  fixed order. A field is supplied when the input carries a truthy value for it; the
  empty string counts as absent, as \<^verbatim>\<open>undefined\<close> does.
\<close>

type_synonym js_object = "string \<Rightarrow> js_value option"

definition supplied :: "js_object \<Rightarrow> string \<Rightarrow> bool" where
  "supplied obj k = (case obj k of None \<Rightarrow> False | Some v \<Rightarrow> truthy v)"

definition field_text :: "js_object \<Rightarrow> string \<Rightarrow> js_string" where
  "field_text obj k = (case obj k of None \<Rightarrow> (lit ''undefined'') | Some v \<Rightarrow> to_str v)"

definition field_line :: "string \<Rightarrow> js_string \<Rightarrow> js_string" where
  "field_line key v = lit key @ lit '': '' @ v"

definition supplied_or :: "js_object \<Rightarrow> string \<Rightarrow> js_string \<Rightarrow> js_string" where
  "supplied_or obj k fallback = (if supplied obj k then field_text obj k else fallback)"

text \<open>The lines of those of \<open>keys\<close> that are supplied, in the order of \<open>keys\<close>.\<close>

definition optional_fields :: "js_object \<Rightarrow> string list \<Rightarrow> js_string list" where
  "optional_fields obj keys = map (\<lambda>k. field_line k (field_text obj k)) (filter (supplied obj) keys)"

text \<open>A value of the context provider, or its fallback when the provider has none.\<close>

definition context_or :: "js_string option \<Rightarrow> js_string \<Rightarrow> js_string" where
  "context_or v fallback = (case v of None \<Rightarrow> fallback | Some s \<Rightarrow> if s = [] then fallback else s)"

definition header_line :: js_string where
  "header_line = lit ''--- Debug Information (please do not edit) ---''"

definition footer_line :: js_string where
  "footer_line = lit ''---''"

definition sandbox_line :: js_string where
  "sandbox_line = lit ''environment: sandbox''"

text \<open>
  The lines of a returned block, as a reader of the text sees them: \<^verbatim>\<open>text.split('\n')\<close>.
\<close>

fun text_lines :: "js_string \<Rightarrow> js_string list" where
  "text_lines [] = [[]]"
| "text_lines (u # us) =
     (if u = line_break then [] # text_lines us
      else (case text_lines us of [] \<Rightarrow> [[u]] | l # ls \<Rightarrow> (u # l) # ls))"

definition block_text_lines :: "env \<Rightarrow> js_value \<Rightarrow> world \<Rightarrow> js_error + js_string list" where
  "block_text_lines e info w =
     (case buildDebugBlock e info w of
        Inl err \<Rightarrow> Inl err
      | Inr (text, w') \<Rightarrow> Inr (text_lines text))"

definition single_line :: "js_string \<Rightarrow> bool" where
  "single_line l = (line_break \<notin> set l)"

text \<open>
  Generated identifiers are made on demand: the world moves on only when a fallback is
  generated.
\<close>

definition world_after_deviceId :: "js_object \<Rightarrow> world \<Rightarrow> world" where
  "world_after_deviceId obj w = (if supplied obj ''deviceId'' then w else snd (generateDeviceId w))"

definition world_after_entityHash :: "env \<Rightarrow> js_object \<Rightarrow> world \<Rightarrow> world" where
  "world_after_entityHash e obj w =
     (if supplied obj ''guestEntityHash'' then w else snd (generateSimpleEntityHash e w))"

text \<open>Section 4.1, step 2, guest variant.\<close>

definition guest_fields_spec :: "env \<Rightarrow> js_object \<Rightarrow> world \<Rightarrow> js_string list" where
  "guest_fields_spec e obj w =
     [field_line ''flowType'' (field_text obj ''flowType''),
      field_line ''appId''
        (supplied_or obj ''appId'' (context_or (EXPO_PUBLIC_CDP_PROJECT_ID e) (lit ''unknown''))),
      field_line ''partnerName'' (supplied_or obj ''partnerName'' PARTNER_NAME),
      field_line ''deviceId'' (supplied_or obj ''deviceId'' (fst (generateDeviceId w))),
      field_line ''guestEntityHash''
        (supplied_or obj ''guestEntityHash''
           (fst (generateSimpleEntityHash e (world_after_deviceId obj w)))),
      field_line ''guestAmount'' (supplied_or obj ''guestAmount'' (lit ''0'')),
      field_line ''guestCurrency'' (supplied_or obj ''guestCurrency'' (lit ''USD''))]
     @ optional_fields obj
         [''guestAsset'', ''guestNetwork'', ''guestPaymentMethod'', ''guestTransactionIdAtCreate'']"

text \<open>Section 4.1, step 2, transaction variant.\<close>

definition transaction_fields_spec :: "env \<Rightarrow> js_object \<Rightarrow> world \<Rightarrow> js_string list" where
  "transaction_fields_spec e obj w =
     [field_line ''flowType'' (lit ''authenticated''),
      field_line ''appId'' (context_or (EXPO_PUBLIC_CDP_PROJECT_ID e) (lit ''unknown'')),
      field_line ''partnerName'' PARTNER_NAME,
      field_line ''deviceId'' (fst (generateDeviceId w))]
     @ optional_fields obj
         [''transactionId'', ''status'', ''purchaseCurrency'', ''purchaseNetwork'', ''purchaseAmount'',
          ''paymentTotal'', ''paymentCurrency'', ''paymentMethod'', ''walletAddress'', ''txHash'',
          ''createdAt'', ''partnerUserRef'']"

text \<open>Section 4.1, steps 3 to 6.\<close>

definition context_fields_spec :: "env \<Rightarrow> js_string \<Rightarrow> js_string list" where
  "context_fields_spec e timestamp =
     [field_line ''appVersion'' (context_or (nativeApplicationVersion e) (lit ''unknown'')),
      field_line ''timestamp'' timestamp,
      field_line ''locale'' (context_or (Localization_locale e) (lit ''en-US'')),
      field_line ''timezone'' (context_or (Localization_timezone e) (Intl_timeZone e))]"

definition closing_spec :: "js_object \<Rightarrow> js_string list" where
  "closing_spec obj = optional_fields obj [''errorMessage'', ''debugMessage''] @ [footer_line]"

definition trailer_spec :: "env \<Rightarrow> js_object \<Rightarrow> js_string \<Rightarrow> js_string list" where
  "trailer_spec e obj timestamp =
     context_fields_spec e timestamp
     @ (if getSandboxMode e then [sandbox_line] else [])
     @ closing_spec obj"

text \<open>The whole block of an object, by its discriminant, and the world after building it.\<close>

definition variant_fields_spec :: "env \<Rightarrow> js_object \<Rightarrow> world \<Rightarrow> js_string list" where
  "variant_fields_spec e obj w =
     (if obj ''flowType'' \<noteq> None then guest_fields_spec e obj w else transaction_fields_spec e obj w)"

definition block_lines_spec :: "env \<Rightarrow> js_object \<Rightarrow> world \<Rightarrow> js_string list" where
  "block_lines_spec e obj w =
     header_line # variant_fields_spec e obj (snd (new_Date_toISOString w))
       @ trailer_spec e obj (fst (new_Date_toISOString w))"

definition world_after_block :: "env \<Rightarrow> js_object \<Rightarrow> world \<Rightarrow> world" where
  "world_after_block e obj w =
     (let w1 = snd (new_Date_toISOString w)
      in if obj ''flowType'' \<noteq> None
         then world_after_entityHash e obj (world_after_deviceId obj w1)
         else snd (generateDeviceId w1))"

text \<open>
  The two shapes of the interfaces \<^verbatim>\<open>GuestCheckoutDebugInfo\<close> (it carries the discriminant
  \<^verbatim>\<open>flowType\<close>, \<^verbatim>\<open>'guest'\<close> or \<^verbatim>\<open>'authenticated'\<close>) and \<^verbatim>\<open>TransactionDebugInfo\<close> (no
  discriminant, and at least one of its fields), for telling an input that is neither.
\<close>

definition TransactionDebugInfo_keys :: "string list" where
  "TransactionDebugInfo_keys =
     [''transactionId'', ''status'', ''purchaseCurrency'', ''purchaseNetwork'', ''purchaseAmount'',
      ''paymentTotal'', ''paymentCurrency'', ''paymentMethod'', ''walletAddress'', ''txHash'',
      ''createdAt'', ''partnerUserRef'', ''errorMessage'', ''debugMessage'']"

definition recognizable_guest :: "js_value \<Rightarrow> bool" where
  "recognizable_guest v =
     (case v of
        JObject obj \<Rightarrow>
          obj ''flowType'' = Some (JString (lit ''guest'')) \<or> obj ''flowType'' = Some (JString (lit ''authenticated''))
      | _ \<Rightarrow> False)"

definition recognizable_transaction :: "js_value \<Rightarrow> bool" where
  "recognizable_transaction v =
     (case v of
        JObject obj \<Rightarrow> obj ''flowType'' = None \<and> list_ex (\<lambda>k. obj k \<noteq> None) TransactionDebugInfo_keys
      | _ \<Rightarrow> False)"

text \<open>The keys of a guest input for which a falsy value is replaced or dropped.\<close>

definition guest_fallback_keys :: "string list" where
  "guest_fallback_keys =
     [''appId'', ''partnerName'', ''deviceId'', ''guestEntityHash'', ''guestAmount'', ''guestCurrency'']"

definition guest_conditional_keys :: "string list" where
  "guest_conditional_keys =
     [''guestAsset'', ''guestNetwork'', ''guestPaymentMethod'', ''guestTransactionIdAtCreate'']"

section \<open>Sample inputs\<close>



definition sample_env :: env where
  "sample_env =
     \<lparr>Localization_locale = Some (lit ''en-GB''), Localization_timezone = None,
      Intl_timeZone = lit ''Europe/London'', nativeApplicationVersion = Some (lit ''1.0.0''),
      EXPO_PUBLIC_CDP_PROJECT_ID = None, getSandboxMode = True,
      getCurrentPartnerUserRef = Some (lit ''user-1234-abcd'')\<rparr>"

definition sample_world :: world where
  "sample_world =
     \<lparr>randoms = (\<lambda>n. \<lparr>floor16 = n mod 16, toString16 = lit ''0.8f3a91c2d4e6'',
                         toString36 = (lit ''0.k3j9x2m1p0qz7'')\<rparr>),
      drawn = 0,
      clock = (\<lambda>n. \<lparr>millis = 86400000, toISOString = (lit ''1970-01-02T00:00:00.000Z'')\<rparr>),
      readings = 0\<rparr>"

definition later_world :: world where
  "later_world =
     \<lparr>randoms = (\<lambda>n. \<lparr>floor16 = 15 - n mod 16, toString16 = lit ''0.1b2c3d4e5f6a'',
                         toString36 = (lit ''0.z9y8x7w6v5u4t'')\<rparr>),
      drawn = 0,
      clock = (\<lambda>n. \<lparr>millis = 172800000, toISOString = (lit ''1970-01-03T00:00:00.000Z'')\<rparr>),
      readings = 0\<rparr>"

text \<open>The guest input of the specification's round-trip scenario.\<close>

definition sample_guest :: js_object where
  "sample_guest =
     [''flowType'' \<mapsto> JString (lit ''guest''), ''partnerName'' \<mapsto> JString (lit ''Acme''),
      ''guestAmount'' \<mapsto> JString (lit ''5.00''), ''guestCurrency'' \<mapsto> JString (lit ''USD''),
      ''errorMessage'' \<mapsto> JString (lit ''card_declined'')]"

definition bare_guest :: js_object where
  "bare_guest = [''flowType'' \<mapsto> JString (lit ''guest''), ''partnerName'' \<mapsto> JString (lit ''Acme'')]"

definition sample_transaction :: js_object where
  "sample_transaction =
     [''transactionId'' \<mapsto> JString (lit ''tx-42''), ''status'' \<mapsto> JUndefined,
      ''purchaseAmount'' \<mapsto> JString (lit ''7.79''), ''walletAddress'' \<mapsto> JString (lit ''0xabc''),
      ''errorMessage'' \<mapsto> JString (lit ''failed'')]"

text \<open>A guest record that has lost its \<^verbatim>\<open>flowType\<close>: neither shape.\<close>

definition stray_input :: js_object where
  "stray_input = [''partnerName'' \<mapsto> JString (lit ''Acme''), ''guestAmount'' \<mapsto> JString (lit ''5.00'')]"

definition both_ids :: js_object where
  "both_ids =
     [''flowType'' \<mapsto> JString (lit ''guest''), ''partnerName'' \<mapsto> JString (lit ''Acme''),
      ''guestEntityHash'' \<mapsto> JString (lit ''hash-1''), ''transactionId'' \<mapsto> JString (lit ''tx-42'')]"






definition quiet_env :: env where
  "quiet_env = sample_env\<lparr>getSandboxMode := False\<rparr>"

definition forged_guest :: js_object where
  "forged_guest =
     [''flowType'' \<mapsto> JString (lit ''guest''), ''partnerName'' \<mapsto> JString (lit ''Acme''),
      ''deviceId'' \<mapsto> JString (lit ''device-1''), ''guestEntityHash'' \<mapsto> JString (lit ''hash-1''),
      ''errorMessage'' \<mapsto> JString (lit ''declined'' @ newline @ lit ''environment: sandbox'')]"

text \<open>The transaction record of the specification's normalizer scenario.\<close>

definition sample_record :: js_object where
  "sample_record =
     [''transaction_id'' \<mapsto> JString (lit ''tx-42''), ''purchase_currency'' \<mapsto> JString (lit ''ETH''),
      ''purchase_amount'' \<mapsto> JObject [''value'' \<mapsto> JString (lit ''7.79''), ''currency'' \<mapsto> JString (lit ''USDC'')]]"

section \<open>Code units of literals\<close>

lemma unat_unit_of [simp]: "unat (unit_of c) = of_char c"
proof -
  have "(of_char c :: nat) < 65536"
    by (rule less_trans [OF nat_of_char_less_256]) simp
  then have "of_char c mod 65536 = (of_char c :: nat)"
    by (rule mod_less)
  then show ?thesis
    by (simp add: unit_of_def unat_of_nat)
qed

lemma unit_of_eq_iff [simp]: "unit_of c = unit_of d \<longleftrightarrow> c = d"
proof
  assume "unit_of c = unit_of d"
  then have "unat (unit_of c) = unat (unit_of d)"
    by simp
  then show "c = d"
    by simp
qed simp



lemma unit_of_not_surrogate [simp]:
  "\<not> is_high_surrogate (unit_of c)" "\<not> is_low_surrogate (unit_of c)"
proof -
  have "(of_char c :: nat) < 55296"
    by (rule less_trans [OF nat_of_char_less_256]) simp
  then show "\<not> is_high_surrogate (unit_of c)" "\<not> is_low_surrogate (unit_of c)"
    by (simp_all add: is_high_surrogate_def is_low_surrogate_def)
qed

section \<open>The source's pushes against the contract's lists\<close>

lemma to_str_js_or_null: "to_str (js_or (or_null v) (JString d)) = context_or v d"
  by (cases v) (simp_all add: js_or_def context_or_def)

lemma to_str_js_or_undefined: "to_str (js_or (or_undefined v) (JString d)) = context_or v d"
  by (cases v) (simp_all add: js_or_def context_or_def)

lemma to_str_js_or_get:
  "to_str (js_or (js_get (JObject obj) k) (JString d)) = supplied_or obj k d"
  by (simp add: js_or_def supplied_or_def supplied_def field_text_def split: option.splits)

lemma to_str_get: "to_str (js_get (JObject obj) k) = field_text obj k"
  by (simp add: field_text_def split: option.splits)

lemma push_if_get: "push_if ls k (js_get (JObject obj) k) = ls @ optional_fields obj [k]"
  by (simp add: push_if_def push_def optional_fields_def supplied_def field_text_def field_line_def
      split: option.splits)

lemma push_if_in_get:
  "push_if ls k (if obj k \<noteq> None then js_get (JObject obj) k else JUndefined)
     = ls @ optional_fields obj [k]"
  by (simp add: push_if_def push_def optional_fields_def supplied_def field_text_def field_line_def
      split: option.splits)

lemma optional_fields_Cons:
  "optional_fields obj (k # ks) = optional_fields obj [k] @ optional_fields obj ks"
  by (simp add: optional_fields_def)

lemma to_str_or_generate:
  "to_str (fst (or_generate (js_get (JObject obj) k) gen w)) = supplied_or obj k (fst (gen w))"
  by (simp add: or_generate_def supplied_def field_text_def supplied_or_def
      split: prod.splits option.splits)

lemma snd_or_generate:
  "snd (or_generate (js_get (JObject obj) k) gen w) = (if supplied obj k then w else snd (gen w))"
  by (simp add: or_generate_def supplied_def split: prod.splits option.splits)

lemma guest_branch_eq:
  "guest_branch e (context_or (EXPO_PUBLIC_CDP_PROJECT_ID e) (lit ''unknown'')) (JObject obj) ls w =
     (ls @ guest_fields_spec e obj w, world_after_entityHash e obj (world_after_deviceId obj w))"
  unfolding guest_branch_def guest_fields_spec_def Let_def case_prod_beta push_if_get
    to_str_or_generate snd_or_generate to_str_js_or_get to_str_get push_def field_line_def
    world_after_entityHash_def world_after_deviceId_def
  by (simp add: optional_fields_Cons [of _ _ "_ # _"])

lemma transaction_branch_eq:
  "transaction_branch (context_or (EXPO_PUBLIC_CDP_PROJECT_ID e) (lit ''unknown'')) (JObject obj) ls w =
     (ls @ transaction_fields_spec e obj w, snd (generateDeviceId w))"
  unfolding transaction_branch_def transaction_fields_spec_def Let_def case_prod_beta push_if_get
    push_def field_line_def
  by (simp add: optional_fields_Cons [of _ _ "_ # _"])

lemma common_fields_eq:
  "common_fields (context_or (nativeApplicationVersion e) (lit ''unknown'')) ts
      (context_or (Localization_locale e) (lit ''en-US''))
      (context_or (Localization_timezone e) (Intl_timeZone e)) (getSandboxMode e)
      (if obj ''errorMessage'' \<noteq> None then js_get (JObject obj) ''errorMessage'' else JUndefined)
      (if obj ''debugMessage'' \<noteq> None then js_get (JObject obj) ''debugMessage'' else JUndefined) ls
   = ls @ trailer_spec e obj ts"
  unfolding common_fields_def Let_def push_if_in_get trailer_spec_def context_fields_spec_def
    closing_spec_def push_def field_line_def sandbox_line_def footer_line_def
  by (simp add: optional_fields_Cons [of _ _ "_ # _"])

lemma debug_lines_object:
  "debug_lines e (JObject obj) w = Inr (block_lines_spec e obj w, world_after_block e obj w)"
  unfolding debug_lines_def Let_def case_prod_beta to_str_js_or_null to_str_js_or_undefined
    js_in.simps sum.case guest_branch_eq transaction_branch_eq common_fields_eq
  by (simp add: block_lines_spec_def world_after_block_def variant_fields_spec_def header_line_def
      guest_branch_eq transaction_branch_eq)

lemma buildDebugBlock_object:
  "buildDebugBlock e (JObject obj) w =
     Inr (js_join newline (block_lines_spec e obj w), world_after_block e obj w)"
  by (simp add: buildDebugBlock_def debug_lines_object)

section \<open>Unrolling the recursions one step at a time\<close>

lemma generateDeviceId_loop_step:
  "i < 32 \<Longrightarrow>
     generateDeviceId_loop i result w =
       generateDeviceId_loop (i + 1)
         ((if i = 8 \<or> i = 12 \<or> i = 16 \<or> i = 20 then result @ (lit ''-'') else result)
            @ char_at hex_chars (floor16 (randoms w (drawn w))))
         (w\<lparr>drawn := drawn w + 1\<rparr>)"
  by (subst generateDeviceId_loop.simps) (simp add: Math_random_def)

lemma generateDeviceId_loop_stop: "\<not> i < 32 \<Longrightarrow> generateDeviceId_loop i result w = (result, w)"
  by (subst generateDeviceId_loop.simps) simp

lemma toString_radix_last: "radix < 2 \<or> n < radix \<Longrightarrow> toString_radix radix n = [digit_char n]"
  by (subst toString_radix.simps) simp

lemma toString_radix_more:
  "\<not> (radix < 2 \<or> n < radix) \<Longrightarrow>
     toString_radix radix n = toString_radix radix (n div radix) @ [digit_char (n mod radix)]"
  by (subst toString_radix.simps) simp

lemma sample_world_simps:
  "drawn sample_world = 0" "readings sample_world = 0"
  "floor16 (randoms sample_world n) = n mod 16"
  "toString16 (randoms sample_world n) = lit ''0.8f3a91c2d4e6''"
  "toString36 (randoms sample_world n) = lit ''0.k3j9x2m1p0qz7''"
  "millis (clock sample_world n) = 86400000"
  "toISOString (clock sample_world n) = lit ''1970-01-02T00:00:00.000Z''"
  by (simp_all add: sample_world_def)

lemma generateDeviceId_sample:
  assumes "randoms w = randoms sample_world" "drawn w = 0"
  shows "generateDeviceId w = (lit ''01234567-89ab-cdef-0123-456789abcdef'', w\<lparr>drawn := 32\<rparr>)"
  using assms
  by (simp add: generateDeviceId_def generateDeviceId_loop_step generateDeviceId_loop_stop
      char_at_def hex_chars_def sample_world_simps)

lemma generateSimpleEntityHash_sample:
  assumes "getCurrentPartnerUserRef e = Some (lit ''user-1234-abcd'')"
    "randoms w = randoms sample_world" "clock w = clock sample_world"
  shows "generateSimpleEntityHash e w =
           (lit ''user1235265c008f3a91c2'', w\<lparr>drawn := Suc (drawn w), readings := Suc (readings w)\<rparr>)"
  using assms
  by (simp add: generateSimpleEntityHash_def Date_now_def Math_random_def Let_def
      toString_radix_last toString_radix_more digit_char_def js_substring_def js_slice_def
      strip_hyphens_def js_or_def sample_world_simps)

section \<open>Evaluating the contract on samples\<close>

lemmas spec_defs = block_lines_spec_def variant_fields_spec_def guest_fields_spec_def
  transaction_fields_spec_def trailer_spec_def context_fields_spec_def closing_spec_def
  optional_fields_def supplied_def supplied_or_def field_text_def field_line_def context_or_def
  header_line_def footer_line_def sandbox_line_def world_after_block_def world_after_deviceId_def
  world_after_entityHash_def PARTNER_NAME_def new_Date_toISOString_def

lemmas sample_evals = sample_world_simps generateDeviceId_sample generateSimpleEntityHash_sample

section \<open>Field order of the guest variant\<close>

text \<open>
  C1. For every input with a \<^verbatim>\<open>flowType\<close> key (a \<^verbatim>\<open>GuestCheckoutDebugInfo\<close>),
  \<open>buildDebugBlock\<close> returns, and the array it joins is the header, then exactly the lines
  of \<open>guest_fields_spec\<close> in that order: \<open>flowType\<close>; \<open>appId\<close> (the input's, else the
  context's project id, else \<open>unknown\<close>); \<open>partnerName\<close> (else the static default);
  \<open>deviceId\<close> (else freshly generated); \<open>guestEntityHash\<close> (else freshly generated);
  \<open>guestAmount\<close>; \<open>guestCurrency\<close>; then \<open>guestAsset\<close>, \<open>guestNetwork\<close>,
  \<open>guestPaymentMethod\<close>, \<open>guestTransactionIdAtCreate\<close>, each only if supplied; then the
  context lines and the footer.
\<close>

theorem guest_field_order:
  assumes "obj ''flowType'' \<noteq> None"
  shows "debug_lines e (JObject obj) w =
           Inr (header_line # guest_fields_spec e obj (snd (new_Date_toISOString w))
                  @ trailer_spec e obj (fst (new_Date_toISOString w)),
                world_after_block e obj w)
         \<and> buildDebugBlock e (JObject obj) w =
           Inr (js_join newline
                  (header_line # guest_fields_spec e obj (snd (new_Date_toISOString w))
                     @ trailer_spec e obj (fst (new_Date_toISOString w))),
                world_after_block e obj w)"
  using assms
  by (simp add: debug_lines_object buildDebugBlock_object block_lines_spec_def
      variant_fields_spec_def)

theorem guest_field_order_witness:
  "sample_guest ''flowType'' \<noteq> None
   \<and> debug_lines sample_env (JObject sample_guest) sample_world =
       Inr ([lit ''--- Debug Information (please do not edit) ---'',
             lit ''flowType: guest'',
             lit ''appId: unknown'',
             lit ''partnerName: Acme'',
             lit ''deviceId: 01234567-89ab-cdef-0123-456789abcdef'',
             lit ''guestEntityHash: user1235265c008f3a91c2'',
             lit ''guestAmount: 5.00'',
             lit ''guestCurrency: USD'',
             lit ''appVersion: 1.0.0'',
             lit ''timestamp: 1970-01-02T00:00:00.000Z'',
             lit ''locale: en-GB'',
             lit ''timezone: Europe/London'',
             lit ''environment: sandbox'',
             lit ''errorMessage: card_declined'',
             lit ''---''],
            sample_world\<lparr>drawn := 33, readings := 2\<rparr>)"
  using guest_field_order [of sample_guest sample_env sample_world]
  by (simp add: sample_env_def sample_guest_def spec_defs sample_evals)

section \<open>Field order of the transaction variant\<close>

text \<open>
  C2. For every input without a \<^verbatim>\<open>flowType\<close> key (a \<^verbatim>\<open>TransactionDebugInfo\<close>),
  \<open>buildDebugBlock\<close> returns, and the array it joins is the header, then exactly the lines
  of \<open>transaction_fields_spec\<close>: \<open>flowType: authenticated\<close>; \<open>appId\<close> (the context's
  project id, else \<open>unknown\<close>); \<open>partnerName\<close> (the static default); a freshly generated
  \<open>deviceId\<close>; then those of \<open>transactionId\<close>, \<open>status\<close>, \<open>purchaseCurrency\<close>,
  \<open>purchaseNetwork\<close>, \<open>purchaseAmount\<close>, \<open>paymentTotal\<close>, \<open>paymentCurrency\<close>,
  \<open>paymentMethod\<close>, \<open>walletAddress\<close>, \<open>txHash\<close>, \<open>createdAt\<close>, \<open>partnerUserRef\<close> that are
  supplied, the others skipped and the order of the remaining ones kept; then the context
  lines and the footer.
\<close>

theorem transaction_field_order:
  assumes "obj ''flowType'' = None"
  shows "debug_lines e (JObject obj) w =
           Inr (header_line # transaction_fields_spec e obj (snd (new_Date_toISOString w))
                  @ trailer_spec e obj (fst (new_Date_toISOString w)),
                snd (generateDeviceId (snd (new_Date_toISOString w))))
         \<and> buildDebugBlock e (JObject obj) w =
           Inr (js_join newline
                  (header_line # transaction_fields_spec e obj (snd (new_Date_toISOString w))
                     @ trailer_spec e obj (fst (new_Date_toISOString w))),
                snd (generateDeviceId (snd (new_Date_toISOString w))))"
  using assms
  by (simp add: debug_lines_object buildDebugBlock_object block_lines_spec_def
      variant_fields_spec_def world_after_block_def)

theorem transaction_field_order_witness:
  "sample_transaction ''flowType'' = None
   \<and> debug_lines sample_env (JObject sample_transaction) sample_world =
       Inr ([lit ''--- Debug Information (please do not edit) ---'',
             lit ''flowType: authenticated'',
             lit ''appId: unknown'',
             lit ''partnerName: Onramp V2 Demo'',
             lit ''deviceId: 01234567-89ab-cdef-0123-456789abcdef'',
             lit ''transactionId: tx-42'',
             lit ''purchaseAmount: 7.79'',
             lit ''walletAddress: 0xabc'',
             lit ''appVersion: 1.0.0'',
             lit ''timestamp: 1970-01-02T00:00:00.000Z'',
             lit ''locale: en-GB'',
             lit ''timezone: Europe/London'',
             lit ''environment: sandbox'',
             lit ''errorMessage: failed'',
             lit ''---''],
            sample_world\<lparr>drawn := 32, readings := 1\<rparr>)"
  using transaction_field_order [of sample_transaction sample_env sample_world]
  by (simp add: sample_env_def sample_transaction_def spec_defs sample_evals)

section \<open>The amount and currency lines of the guest variant\<close>

text \<open>
  C3. For every input with a \<^verbatim>\<open>flowType\<close> key, the emitted array has a \<open>guestAmount\<close> line
  at index 6 and a \<open>guestCurrency\<close> line at index 7, whatever the input supplies; when the
  input supplies no amount the line is \<open>guestAmount: 0\<close>, and when it supplies no currency
  the line is \<open>guestCurrency: USD\<close>.
\<close>

theorem guest_amount_currency_always:
  assumes "obj ''flowType'' \<noteq> None"
  shows "debug_lines e (JObject obj) w = Inr (block_lines_spec e obj w, world_after_block e obj w)
         \<and> buildDebugBlock e (JObject obj) w =
             Inr (js_join newline (block_lines_spec e obj w), world_after_block e obj w)
         \<and> block_lines_spec e obj w ! 6 = lit ''guestAmount: '' @ supplied_or obj ''guestAmount'' (lit ''0'')
         \<and> block_lines_spec e obj w ! 7 = lit ''guestCurrency: '' @ supplied_or obj ''guestCurrency'' (lit ''USD'')
         \<and> (\<not> supplied obj ''guestAmount'' \<longrightarrow> (lit ''guestAmount: 0'') \<in> set (block_lines_spec e obj w))
         \<and> (\<not> supplied obj ''guestCurrency'' \<longrightarrow> (lit ''guestCurrency: USD'') \<in> set (block_lines_spec e obj w))"
  using assms
  by (simp add: debug_lines_object buildDebugBlock_object block_lines_spec_def
      variant_fields_spec_def guest_fields_spec_def supplied_or_def field_line_def)

theorem guest_amount_currency_always_witness:
  "bare_guest ''flowType'' \<noteq> None
   \<and> \<not> supplied bare_guest ''guestAmount'' \<and> \<not> supplied bare_guest ''guestCurrency''
   \<and> debug_lines sample_env (JObject bare_guest) sample_world =
        Inr (block_lines_spec sample_env bare_guest sample_world,
             world_after_block sample_env bare_guest sample_world)
   \<and> block_lines_spec sample_env bare_guest sample_world ! 6 = lit ''guestAmount: 0''
   \<and> block_lines_spec sample_env bare_guest sample_world ! 7 = lit ''guestCurrency: USD''
   \<and> (lit ''guestAmount: 0'') \<in> set (block_lines_spec sample_env bare_guest sample_world)
   \<and> (lit ''guestCurrency: USD'') \<in> set (block_lines_spec sample_env bare_guest sample_world)"
  using guest_amount_currency_always [of bare_guest sample_env sample_world]
  by (simp add: bare_guest_def supplied_def supplied_or_def)

section \<open>Precedence of the correlation identifier\<close>

text \<open>
  C4. \<open>generateEntityHash\<close> returns on every object, by the first of these that applies:
  the input's \<open>guestEntityHash\<close> if supplied (also when a \<open>transactionId\<close> is supplied as
  well); else its \<open>transactionId\<close> if supplied; else, when the context provider has a
  non-empty partner-user reference, the first 8 characters of that reference, a hyphen and
  the current time in base 36; otherwise (no reference, or an empty one) characters 2 to 14
  of a random number in base 36, which depends on the random source alone. The first two
  cases leave clock and random source untouched.
\<close>

theorem generateEntityHash_precedence:
  "(supplied obj ''guestEntityHash'' \<longrightarrow>
      generateEntityHash e (JObject obj) w = Inr (js_get (JObject obj) ''guestEntityHash'', w))
   \<and> (\<not> supplied obj ''guestEntityHash'' \<and> supplied obj ''transactionId'' \<longrightarrow>
      generateEntityHash e (JObject obj) w = Inr (js_get (JObject obj) ''transactionId'', w))
   \<and> (\<not> supplied obj ''guestEntityHash'' \<and> \<not> supplied obj ''transactionId'' \<longrightarrow>
      (\<forall>r. getCurrentPartnerUserRef e = Some r \<and> r \<noteq> [] \<longrightarrow>
         generateEntityHash e (JObject obj) w =
           Inr (JString (take 8 r @ lit ''-'' @ toString_radix 36 (millis (clock w (readings w)))),
                w\<lparr>readings := Suc (readings w)\<rparr>))
      \<and> (getCurrentPartnerUserRef e = None \<or> getCurrentPartnerUserRef e = Some [] \<longrightarrow>
         generateEntityHash e (JObject obj) w =
           Inr (JString (js_substring (toString36 (randoms w (drawn w))) 2 15),
                w\<lparr>drawn := Suc (drawn w)\<rparr>)))"
  by (auto simp add: generateEntityHash_def supplied_def Date_now_def Math_random_def js_slice_def
      split: option.splits)

theorem generateEntityHash_precedence_witness:
  "supplied both_ids ''guestEntityHash'' \<and> supplied both_ids ''transactionId''
   \<and> generateEntityHash sample_env (JObject both_ids) sample_world
         = Inr (JString (lit ''hash-1''), sample_world)
   \<and> \<not> supplied sample_transaction ''guestEntityHash'' \<and> supplied sample_transaction ''transactionId''
   \<and> generateEntityHash sample_env (JObject sample_transaction) sample_world
         = Inr (JString (lit ''tx-42''), sample_world)
   \<and> \<not> supplied bare_guest ''guestEntityHash'' \<and> \<not> supplied bare_guest ''transactionId''
   \<and> getCurrentPartnerUserRef sample_env = Some (lit ''user-1234-abcd'')
   \<and> generateEntityHash sample_env (JObject bare_guest) sample_world
         = Inr (JString (lit ''user-123-1ffuo0''), sample_world\<lparr>readings := 1\<rparr>)
   \<and> getCurrentPartnerUserRef (sample_env\<lparr>getCurrentPartnerUserRef := None\<rparr>) = None
   \<and> generateEntityHash (sample_env\<lparr>getCurrentPartnerUserRef := None\<rparr>) (JObject bare_guest)
         sample_world
         = Inr (JString (lit ''k3j9x2m1p0qz7''), sample_world\<lparr>drawn := 1\<rparr>)"
  using generateEntityHash_precedence [of both_ids sample_env sample_world]
    generateEntityHash_precedence [of sample_transaction sample_env sample_world]
    generateEntityHash_precedence [of bare_guest sample_env sample_world]
    generateEntityHash_precedence
      [of bare_guest "sample_env\<lparr>getCurrentPartnerUserRef := None\<rparr>" sample_world]
  by (simp add: both_ids_def sample_transaction_def bare_guest_def supplied_def sample_env_def
      sample_world_simps toString_radix_last toString_radix_more digit_char_def js_substring_def)

section \<open>Inputs of neither shape\<close>

text \<open>
  C5 claims that an input recognizable as neither variant makes \<open>buildDebugBlock\<close> fail with
  a contract violation. The function has no such check: its \<^verbatim>\<open>else\<close> branch takes every
  object without a \<^verbatim>\<open>flowType\<close> key. A guest record that has lost its \<^verbatim>\<open>flowType\<close> is
  formatted as an authenticated transaction, its own fields dropped.
\<close>

theorem stray_input_is_formatted:
  "\<not> recognizable_guest (JObject stray_input) \<and> \<not> recognizable_transaction (JObject stray_input)
   \<and> debug_lines sample_env (JObject stray_input) sample_world =
       Inr ([lit ''--- Debug Information (please do not edit) ---'',
             lit ''flowType: authenticated'',
             lit ''appId: unknown'',
             lit ''partnerName: Onramp V2 Demo'',
             lit ''deviceId: 01234567-89ab-cdef-0123-456789abcdef'',
             lit ''appVersion: 1.0.0'',
             lit ''timestamp: 1970-01-02T00:00:00.000Z'',
             lit ''locale: en-GB'',
             lit ''timezone: Europe/London'',
             lit ''environment: sandbox'',
             lit ''---''],
            sample_world\<lparr>drawn := 32, readings := 1\<rparr>)
   \<and> buildDebugBlock sample_env (JObject stray_input) sample_world =
       Inr (lit ''--- Debug Information (please do not edit) ---\<newline>flowType: authenticated\<newline>appId: unknown\<newline>partnerName: Onramp V2 Demo\<newline>deviceId: 01234567-89ab-cdef-0123-456789abcdef\<newline>appVersion: 1.0.0\<newline>timestamp: 1970-01-02T00:00:00.000Z\<newline>locale: en-GB\<newline>timezone: Europe/London\<newline>environment: sandbox\<newline>---'',
            sample_world\<lparr>drawn := 32, readings := 1\<rparr>)"
  by (simp add: debug_lines_object buildDebugBlock_object recognizable_guest_def
      recognizable_transaction_def TransactionDebugInfo_keys_def stray_input_def sample_env_def
      spec_defs sample_evals newline_def line_break_def)

text \<open>
  C5, amended. \<open>buildDebugBlock\<close> fails only on an argument that is not an object, with
  the \<^verbatim>\<open>TypeError\<close> of the \<^verbatim>\<open>in\<close> operator. On every object it returns a block; an object
  without a \<^verbatim>\<open>flowType\<close> key, whatever else it holds, gets the transaction variant's
  opening lines.
\<close>

theorem buildDebugBlock_fails_only_on_non_objects:
  "buildDebugBlock e (JObject obj) w =
      Inr (js_join newline (block_lines_spec e obj w), world_after_block e obj w)
   \<and> (obj ''flowType'' = None \<longrightarrow>
        take 5 (block_lines_spec e obj w) =
          [header_line, lit ''flowType: authenticated'',
           lit ''appId: '' @ context_or (EXPO_PUBLIC_CDP_PROJECT_ID e) (lit ''unknown''),
           lit ''partnerName: Onramp V2 Demo'',
           lit ''deviceId: '' @ fst (generateDeviceId (snd (new_Date_toISOString w)))])
   \<and> buildDebugBlock e JUndefined w = Inl TypeError
   \<and> buildDebugBlock e JNull w = Inl TypeError
   \<and> buildDebugBlock e (JString s) w = Inl TypeError"
proof -
  have raises: "buildDebugBlock e JUndefined w = Inl TypeError"
    "buildDebugBlock e JNull w = Inl TypeError" "buildDebugBlock e (JString s) w = Inl TypeError"
    by (simp_all add: buildDebugBlock_def debug_lines_def case_prod_beta)
  have shape: "obj ''flowType'' = None \<longrightarrow>
        take 5 (block_lines_spec e obj w) =
          [header_line, lit ''flowType: authenticated'',
           lit ''appId: '' @ context_or (EXPO_PUBLIC_CDP_PROJECT_ID e) (lit ''unknown''),
           lit ''partnerName: Onramp V2 Demo'',
           lit ''deviceId: '' @ fst (generateDeviceId (snd (new_Date_toISOString w)))]"
    by (simp add: block_lines_spec_def variant_fields_spec_def transaction_fields_spec_def
        field_line_def PARTNER_NAME_def)
  show ?thesis
    using raises shape by (simp add: buildDebugBlock_object)
qed

theorem buildDebugBlock_fails_only_on_non_objects_witness:
  "stray_input ''flowType'' = None
   \<and> buildDebugBlock sample_env (JObject stray_input) sample_world =
      Inr (js_join newline (block_lines_spec sample_env stray_input sample_world),
           world_after_block sample_env stray_input sample_world)
   \<and> take 5 (block_lines_spec sample_env stray_input sample_world) =
          [lit ''--- Debug Information (please do not edit) ---'', lit ''flowType: authenticated'',
           lit ''appId: unknown'', lit ''partnerName: Onramp V2 Demo'',
           lit ''deviceId: 01234567-89ab-cdef-0123-456789abcdef'']
   \<and> buildDebugBlock sample_env JUndefined sample_world = Inl TypeError"
  using buildDebugBlock_fails_only_on_non_objects [of sample_env stray_input sample_world]
  by (simp add: stray_input_def sample_env_def header_line_def context_or_def
      new_Date_toISOString_def sample_evals)

section \<open>The sandbox line\<close>

lemma optional_fields_mem:
  "l \<in> set (optional_fields obj ks) \<Longrightarrow>
     \<exists>k\<in>set ks. supplied obj k \<and> l = field_line k (field_text obj k)"
  by (auto simp add: optional_fields_def)

lemma guest_keys_not_sandbox:
  "\<forall>k\<in>set [''guestAsset'', ''guestNetwork'', ''guestPaymentMethod'', ''guestTransactionIdAtCreate''].
     field_line k v \<noteq> sandbox_line"
  by (simp add: field_line_def sandbox_line_def)

lemma transaction_keys_not_sandbox:
  "\<forall>k\<in>set [''transactionId'', ''status'', ''purchaseCurrency'', ''purchaseNetwork'',
             ''purchaseAmount'', ''paymentTotal'', ''paymentCurrency'', ''paymentMethod'',
             ''walletAddress'', ''txHash'', ''createdAt'', ''partnerUserRef''].
     field_line k v \<noteq> sandbox_line"
  by (simp add: field_line_def sandbox_line_def)

lemma closing_keys_not_sandbox:
  "\<forall>k\<in>set [''errorMessage'', ''debugMessage'']. field_line k v \<noteq> sandbox_line"
  by (simp add: field_line_def sandbox_line_def)

lemma sandbox_not_optional:
  assumes "\<And>v. \<forall>k\<in>set ks. field_line k v \<noteq> sandbox_line"
  shows "sandbox_line \<notin> set (optional_fields obj ks)"
proof
  assume "sandbox_line \<in> set (optional_fields obj ks)"
  then obtain k where "k \<in> set ks" "sandbox_line = field_line k (field_text obj k)"
    using optional_fields_mem by blast
  with assms show False
    by metis
qed

lemma sandbox_not_in_guest_fields: "sandbox_line \<notin> set (guest_fields_spec e obj w)"
  using sandbox_not_optional [OF guest_keys_not_sandbox, of obj]
  by (simp add: guest_fields_spec_def field_line_def sandbox_line_def)

lemma sandbox_not_in_transaction_fields: "sandbox_line \<notin> set (transaction_fields_spec e obj w)"
  using sandbox_not_optional [OF transaction_keys_not_sandbox, of obj]
  by (simp add: transaction_fields_spec_def field_line_def sandbox_line_def)

lemma sandbox_not_in_variant_fields: "sandbox_line \<notin> set (variant_fields_spec e obj w)"
  by (simp add: variant_fields_spec_def sandbox_not_in_guest_fields sandbox_not_in_transaction_fields)

lemma sandbox_not_in_context_fields: "sandbox_line \<notin> set (context_fields_spec e ts)"
  by (simp add: context_fields_spec_def field_line_def sandbox_line_def)

lemma sandbox_not_in_closing: "sandbox_line \<notin> set (closing_spec obj)"
  using sandbox_not_optional [OF closing_keys_not_sandbox, of obj]
  by (simp add: closing_spec_def sandbox_line_def footer_line_def)

lemmas sandbox_elsewhere = sandbox_not_in_variant_fields sandbox_not_in_context_fields
  sandbox_not_in_closing

lemma sandbox_not_header: "sandbox_line \<noteq> header_line"
  by (simp add: sandbox_line_def header_line_def)

subsection \<open>Splitting a joined text\<close>

lemma text_lines_single: "single_line l \<Longrightarrow> text_lines l = [l]"
  by (induction l) (auto simp add: single_line_def)

lemma text_lines_append:
  "single_line l \<Longrightarrow> text_lines (l @ line_break # r) = l # text_lines r"
  by (induction l) (auto simp add: single_line_def)

lemma text_lines_join:
  assumes "ls \<noteq> []" and "\<forall>l\<in>set ls. single_line l"
  shows "text_lines (js_join newline ls) = ls"
  using assms
proof (induction newline ls rule: js_join.induct)
  case 1
  then show ?case by simp
next
  case (2 x)
  then show ?case
    by (simp add: text_lines_single)
next
  case (3 x y ys)
  then show ?case
    by (simp add: newline_def text_lines_append)
qed

lemma block_lines_nonempty: "block_lines_spec e obj w \<noteq> []"
  by (simp add: block_lines_spec_def)

lemma block_text_lines_object:
  assumes "\<forall>l\<in>set (block_lines_spec e obj w). single_line l"
  shows "block_text_lines e (JObject obj) w = Inr (block_lines_spec e obj w)"
  using text_lines_join [OF block_lines_nonempty assms]
  by (simp add: block_text_lines_def buildDebugBlock_object)

text \<open>
  C6 claims that the block holds the line \<open>environment: sandbox\<close> if and only if sandbox
  mode is on, and then exactly once. A field value is emitted as it is, line breaks
  included: an error message ending in a line break and the words
  \<open>environment: sandbox\<close> puts that line into the text with sandbox mode off, and a second
  one, after the \<open>errorMessage\<close> line, with sandbox mode on.
\<close>

theorem forged_sandbox_line:
  "\<not> getSandboxMode quiet_env
   \<and> block_text_lines quiet_env (JObject forged_guest) sample_world =
       Inr [lit ''--- Debug Information (please do not edit) ---'',
            lit ''flowType: guest'',
            lit ''appId: unknown'',
            lit ''partnerName: Acme'',
            lit ''deviceId: device-1'',
            lit ''guestEntityHash: hash-1'',
            lit ''guestAmount: 0'',
            lit ''guestCurrency: USD'',
            lit ''appVersion: 1.0.0'',
            lit ''timestamp: 1970-01-02T00:00:00.000Z'',
            lit ''locale: en-GB'',
            lit ''timezone: Europe/London'',
            lit ''errorMessage: declined'',
            lit ''environment: sandbox'',
            lit ''---'']
   \<and> getSandboxMode sample_env
   \<and> block_text_lines sample_env (JObject forged_guest) sample_world =
       Inr [lit ''--- Debug Information (please do not edit) ---'',
            lit ''flowType: guest'',
            lit ''appId: unknown'',
            lit ''partnerName: Acme'',
            lit ''deviceId: device-1'',
            lit ''guestEntityHash: hash-1'',
            lit ''guestAmount: 0'',
            lit ''guestCurrency: USD'',
            lit ''appVersion: 1.0.0'',
            lit ''timestamp: 1970-01-02T00:00:00.000Z'',
            lit ''locale: en-GB'',
            lit ''timezone: Europe/London'',
            lit ''environment: sandbox'',
            lit ''errorMessage: declined'',
            lit ''environment: sandbox'',
            lit ''---'']"
  by (simp add: block_text_lines_def buildDebugBlock_object quiet_env_def sample_env_def
      forged_guest_def spec_defs sample_world_simps newline_def line_break_def)

text \<open>
  C6, amended. For every object input, \<open>buildDebugBlock\<close> pushes the line
  \<open>environment: sandbox\<close> if and only if the context provider reports sandbox mode; it then
  pushes it exactly once, right after the \<open>timezone\<close> line, and what follows it is only the
  \<open>errorMessage\<close> and \<open>debugMessage\<close> lines (if supplied) and the footer. The lines of
  the returned text are exactly the pushed lines, so that all of this holds of the block
  as it is read, provided no pushed line (no field value, context value or generated
  identifier) holds a line break.
\<close>

theorem sandbox_line_iff_sandbox_mode:
  "debug_lines e (JObject obj) w = Inr (block_lines_spec e obj w, world_after_block e obj w)
   \<and> buildDebugBlock e (JObject obj) w =
        Inr (js_join newline (block_lines_spec e obj w), world_after_block e obj w)
   \<and> (sandbox_line \<in> set (block_lines_spec e obj w) \<longleftrightarrow> getSandboxMode e)
   \<and> count_list (block_lines_spec e obj w) sandbox_line = (if getSandboxMode e then 1 else 0)
   \<and> (getSandboxMode e \<longrightarrow>
        block_lines_spec e obj w =
          (header_line # variant_fields_spec e obj (snd (new_Date_toISOString w))
             @ butlast (context_fields_spec e (fst (new_Date_toISOString w))))
          @ [field_line ''timezone'' (context_or (Localization_timezone e) (Intl_timeZone e)),
             sandbox_line]
          @ optional_fields obj [''errorMessage'', ''debugMessage''] @ [footer_line])
   \<and> ((\<forall>l\<in>set (block_lines_spec e obj w). single_line l) \<longrightarrow>
        block_text_lines e (JObject obj) w = Inr (block_lines_spec e obj w))"
proof -
  let ?V = "variant_fields_spec e obj (snd (new_Date_toISOString w))"
  let ?C = "context_fields_spec e (fst (new_Date_toISOString w))"
  have zero: "count_list ?V sandbox_line = 0" "count_list ?C sandbox_line = 0"
    "count_list (closing_spec obj) sandbox_line = 0"
    by (simp_all add: count_list_0_iff sandbox_elsewhere)
  have mem: "sandbox_line \<in> set (block_lines_spec e obj w) \<longleftrightarrow> getSandboxMode e"
    by (simp add: block_lines_spec_def trailer_spec_def sandbox_elsewhere sandbox_not_header)
  have cnt: "count_list (block_lines_spec e obj w) sandbox_line = (if getSandboxMode e then 1 else 0)"
    using zero by (simp add: block_lines_spec_def trailer_spec_def sandbox_not_header [symmetric])
  have pos: "getSandboxMode e \<longrightarrow>
        block_lines_spec e obj w =
          (header_line # ?V @ butlast ?C)
          @ [field_line ''timezone'' (context_or (Localization_timezone e) (Intl_timeZone e)),
             sandbox_line]
          @ optional_fields obj [''errorMessage'', ''debugMessage''] @ [footer_line]"
    by (simp add: block_lines_spec_def trailer_spec_def context_fields_spec_def closing_spec_def)
  have read: "(\<forall>l\<in>set (block_lines_spec e obj w). single_line l) \<longrightarrow>
        block_text_lines e (JObject obj) w = Inr (block_lines_spec e obj w)"
    using block_text_lines_object by blast
  show ?thesis
    using mem cnt pos read by (simp add: debug_lines_object buildDebugBlock_object)
qed

theorem sandbox_line_iff_sandbox_mode_witness:
  "getSandboxMode sample_env
   \<and> line_break \<notin> set (concat (block_lines_spec sample_env sample_guest sample_world))
   \<and> block_text_lines sample_env (JObject sample_guest) sample_world =
        Inr [lit ''--- Debug Information (please do not edit) ---'',
             lit ''flowType: guest'',
             lit ''appId: unknown'',
             lit ''partnerName: Acme'',
             lit ''deviceId: 01234567-89ab-cdef-0123-456789abcdef'',
             lit ''guestEntityHash: user1235265c008f3a91c2'',
             lit ''guestAmount: 5.00'',
             lit ''guestCurrency: USD'',
             lit ''appVersion: 1.0.0'',
             lit ''timestamp: 1970-01-02T00:00:00.000Z'',
             lit ''locale: en-GB'',
             lit ''timezone: Europe/London'',
             lit ''environment: sandbox'',
             lit ''errorMessage: card_declined'',
             lit ''---'']
   \<and> count_list (block_lines_spec sample_env sample_guest sample_world)
         (lit ''environment: sandbox'') = 1
   \<and> \<not> getSandboxMode quiet_env
   \<and> lit ''environment: sandbox''
         \<notin> set (block_lines_spec quiet_env sample_guest sample_world)"
  using sandbox_line_iff_sandbox_mode [of sample_env sample_guest sample_world]
    sandbox_line_iff_sandbox_mode [of quiet_env sample_guest sample_world]
  by (simp add: sample_env_def quiet_env_def sample_guest_def spec_defs sample_evals
      single_line_def line_break_def)

section \<open>The normalizer\<close>

text \<open>
  C7. For every transaction record, \<open>createDebugInfoFromTransaction\<close> maps
  \<open>purchase_amount\<close> thus: a structured amount gives its \<open>value\<close> sub-field, and its
  \<open>currency\<close> sub-field has no influence on the result (\<open>purchaseCurrency\<close> is the record's
  \<open>purchase_currency\<close>); a bare string is used as it is, and an absent amount stays absent
  (as does \<^verbatim>\<open>null\<close>, which the record's type does not allow: it reads as \<^verbatim>\<open>undefined\<close>).
\<close>

theorem purchase_amount_normalized:
  "(t ''purchase_amount'' = Some (JObject a) \<longrightarrow>
        js_get (createDebugInfoFromTransaction e t err) ''purchaseAmount'' = js_get (JObject a) ''value'')
   \<and> (t ''purchase_amount'' = Some (JString s) \<longrightarrow>
        js_get (createDebugInfoFromTransaction e t err) ''purchaseAmount'' = JString s)
   \<and> (t ''purchase_amount'' = None \<or> t ''purchase_amount'' = Some JUndefined
          \<or> t ''purchase_amount'' = Some JNull \<longrightarrow>
        js_get (createDebugInfoFromTransaction e t err) ''purchaseAmount'' = JUndefined)
   \<and> js_get (createDebugInfoFromTransaction e t err) ''purchaseCurrency''
        = js_get (JObject t) ''purchase_currency''
   \<and> createDebugInfoFromTransaction e (t(''purchase_amount'' \<mapsto> JObject (a(''currency'' := c)))) err
        = createDebugInfoFromTransaction e (t(''purchase_amount'' \<mapsto> JObject a)) err"
  by (auto simp add: createDebugInfoFromTransaction_def Let_def)

theorem purchase_amount_normalized_witness:
  "sample_record ''purchase_amount''
      = Some (JObject [''value'' \<mapsto> JString (lit ''7.79''), ''currency'' \<mapsto> JString (lit ''USDC'')])
   \<and> js_get (createDebugInfoFromTransaction sample_env sample_record JUndefined) ''purchaseAmount''
        = JString (lit ''7.79'')
   \<and> js_get (createDebugInfoFromTransaction sample_env sample_record JUndefined) ''purchaseCurrency''
        = JString (lit ''ETH'')"
  using purchase_amount_normalized
    [of sample_record "[''value'' \<mapsto> JString (lit ''7.79''), ''currency'' \<mapsto> JString (lit ''USDC'')]"
        sample_env JUndefined]
  by (simp add: sample_record_def)

section \<open>Two runs on the same input\<close>

lemma variant_fields_length:
  "length (variant_fields_spec e obj w) = length (variant_fields_spec e obj w')"
  by (simp add: variant_fields_spec_def guest_fields_spec_def transaction_fields_spec_def)

lemma guest_fields_differ:
  assumes "j < length (guest_fields_spec e obj w)"
    and "guest_fields_spec e obj w ! j \<noteq> guest_fields_spec e obj w' ! j"
  shows "(j = 3 \<and> \<not> supplied obj ''deviceId'')
         \<or> (j = 4 \<and> \<not> supplied obj ''guestEntityHash'')"
proof (cases "j < 7")
  case True
  then consider "j = 0" | "j = 1" | "j = 2" | "j = 3" | "j = 4" | "j = 5" | "j = 6"
    by linarith
  then show ?thesis
    using assms(2)
    by cases (auto simp add: guest_fields_spec_def supplied_or_def)
next
  case False
  then show ?thesis
    using assms by (simp add: guest_fields_spec_def nth_append)
qed

lemma transaction_fields_differ:
  assumes "j < length (transaction_fields_spec e obj w)"
    and "transaction_fields_spec e obj w ! j \<noteq> transaction_fields_spec e obj w' ! j"
  shows "j = 3"
proof (cases "j < 4")
  case True
  then consider "j = 0" | "j = 1" | "j = 2" | "j = 3"
    by linarith
  then show ?thesis
    using assms(2) by cases (auto simp add: transaction_fields_spec_def)
next
  case False
  then show ?thesis
    using assms by (simp add: transaction_fields_spec_def nth_append)
qed

lemma variant_fields_differ:
  assumes "j < length (variant_fields_spec e obj w)"
    and "variant_fields_spec e obj w ! j \<noteq> variant_fields_spec e obj w' ! j"
  shows "(j = 3 \<and> (obj ''flowType'' \<noteq> None \<longrightarrow> \<not> supplied obj ''deviceId''))
         \<or> (j = 4 \<and> obj ''flowType'' \<noteq> None \<and> \<not> supplied obj ''guestEntityHash'')"
proof (cases "obj ''flowType'' \<noteq> None")
  case True
  then show ?thesis
    using assms guest_fields_differ [of j e obj w w'] by (simp add: variant_fields_spec_def)
next
  case False
  then show ?thesis
    using assms transaction_fields_differ [of j e obj w w'] by (simp add: variant_fields_spec_def)
qed

lemma trailer_length_timestamp:
  "length (trailer_spec e obj ts) = length (trailer_spec e obj ts')"
  by (simp add: trailer_spec_def context_fields_spec_def)

lemma trailer_differ:
  assumes "j < length (trailer_spec e obj ts)"
    and "trailer_spec e obj ts ! j \<noteq> trailer_spec e obj ts' ! j"
  shows "j = 1"
proof (cases "j < 4")
  case True
  then consider "j = 0" | "j = 1" | "j = 2" | "j = 3"
    by linarith
  then show ?thesis
    using assms(2) by cases (auto simp add: trailer_spec_def context_fields_spec_def)
next
  case False
  then show ?thesis
    using assms by (simp add: trailer_spec_def context_fields_spec_def nth_append)
qed

lemma trailer_nth_1: "trailer_spec e obj ts ! Suc 0 = field_line ''timestamp'' ts"
  by (simp add: trailer_spec_def context_fields_spec_def)

lemma block_lines_differ:
  assumes "i < length (block_lines_spec e obj w1)"
    and "block_lines_spec e obj w1 ! i \<noteq> block_lines_spec e obj w2 ! i"
  shows "(i = 4 \<and> (obj ''flowType'' \<noteq> None \<longrightarrow> \<not> supplied obj ''deviceId''))
         \<or> (i = 5 \<and> obj ''flowType'' \<noteq> None \<and> \<not> supplied obj ''guestEntityHash'')
         \<or> i = length (variant_fields_spec e obj (snd (new_Date_toISOString w1))) + 2"
proof -
  let ?V1 = "variant_fields_spec e obj (snd (new_Date_toISOString w1))"
  let ?V2 = "variant_fields_spec e obj (snd (new_Date_toISOString w2))"
  let ?T1 = "trailer_spec e obj (fst (new_Date_toISOString w1))"
  let ?T2 = "trailer_spec e obj (fst (new_Date_toISOString w2))"
  have len: "length ?V1 = length ?V2"
    by (rule variant_fields_length)
  from assms(2) obtain j where i: "i = Suc j"
    by (cases i) (simp_all add: block_lines_spec_def)
  have j: "j < length ?V1 + length ?T1" and neq: "(?V1 @ ?T1) ! j \<noteq> (?V2 @ ?T2) ! j"
    using assms i by (simp_all add: block_lines_spec_def)
  show ?thesis
  proof (cases "j < length ?V1")
    case True
    then have "?V1 ! j \<noteq> ?V2 ! j"
      using neq len by (simp add: nth_append)
    from variant_fields_differ [OF True this] show ?thesis
      using i by auto
  next
    case False
    then have "j - length ?V1 < length ?T1" and "?T1 ! (j - length ?V1) \<noteq> ?T2 ! (j - length ?V1)"
      using j neq len by (simp_all add: nth_append)
    then have "j - length ?V1 = 1"
      by (rule trailer_differ)
    then show ?thesis
      using False i by auto
  qed
qed

lemma block_lines_nth_deviceId:
  "block_lines_spec e obj w ! 4 = field_line ''deviceId''
      (if obj ''flowType'' \<noteq> None
       then supplied_or obj ''deviceId'' (fst (generateDeviceId (snd (new_Date_toISOString w))))
       else fst (generateDeviceId (snd (new_Date_toISOString w))))"
  by (simp add: block_lines_spec_def variant_fields_spec_def guest_fields_spec_def
      transaction_fields_spec_def)

lemma block_lines_nth_entityHash:
  "obj ''flowType'' \<noteq> None \<Longrightarrow>
     block_lines_spec e obj w ! 5 = field_line ''guestEntityHash''
       (supplied_or obj ''guestEntityHash''
          (fst (generateSimpleEntityHash e
                  (world_after_deviceId obj (snd (new_Date_toISOString w))))))"
  by (simp add: block_lines_spec_def variant_fields_spec_def guest_fields_spec_def)

lemma block_lines_nth_timestamp:
  "block_lines_spec e obj w ! (length (variant_fields_spec e obj (snd (new_Date_toISOString w))) + 2)
     = field_line ''timestamp'' (fst (new_Date_toISOString w))"
  by (simp add: block_lines_spec_def nth_append trailer_nth_1)

lemma block_lines_length:
  "length (block_lines_spec e obj w1) = length (block_lines_spec e obj w2)"
  using variant_fields_length
          [of e obj "snd (new_Date_toISOString w1)" "snd (new_Date_toISOString w2)"]
    trailer_length_timestamp [of e obj "fst (new_Date_toISOString w1)" "fst (new_Date_toISOString w2)"]
  by (simp add: block_lines_spec_def)

lemma later_world_simps:
  "drawn later_world = 0" "readings later_world = 0"
  "floor16 (randoms later_world n) = 15 - n mod 16"
  "toString16 (randoms later_world n) = lit ''0.1b2c3d4e5f6a''"
  "toString36 (randoms later_world n) = lit ''0.z9y8x7w6v5u4t''"
  "millis (clock later_world n) = 172800000"
  "toISOString (clock later_world n) = lit ''1970-01-03T00:00:00.000Z''"
  by (simp_all add: later_world_def)

lemma generateDeviceId_later:
  assumes "randoms w = randoms later_world" "drawn w = 0"
  shows "generateDeviceId w = (lit ''fedcba98-7654-3210-fedc-ba9876543210'', w\<lparr>drawn := 32\<rparr>)"
  using assms
  by (simp add: generateDeviceId_def generateDeviceId_loop_step generateDeviceId_loop_stop
      char_at_def hex_chars_def later_world_simps)

lemma generateSimpleEntityHash_later:
  assumes "getCurrentPartnerUserRef e = Some (lit ''user-1234-abcd'')"
    "randoms w = randoms later_world" "clock w = clock later_world"
  shows "generateSimpleEntityHash e w =
           (lit ''user123a4cb8001b2c3d4e'', w\<lparr>drawn := Suc (drawn w), readings := Suc (readings w)\<rparr>)"
  using assms
  by (simp add: generateSimpleEntityHash_def Date_now_def Math_random_def Let_def
      toString_radix_last toString_radix_more digit_char_def js_substring_def js_slice_def
      strip_hyphens_def js_or_def later_world_simps)

lemmas later_evals = later_world_simps generateDeviceId_later generateSimpleEntityHash_later

text \<open>
  C8. Two calls of \<open>buildDebugBlock\<close> on the same object, with the same values from the
  context provider, but at different clock readings and with different random draws,
  emit arrays of the same length that agree at every index except, at most: index 4, the
  \<open>deviceId\<close> line, when the caller supplied none (the transaction variant never has one);
  index 5, the \<open>guestEntityHash\<close> line of a guest input that supplied none; and the
  \<open>timestamp\<close> line. All other lines are equal.
\<close>

theorem two_runs_differ_only_in_volatile_lines:
  "debug_lines e (JObject obj) w1 = Inr (block_lines_spec e obj w1, world_after_block e obj w1)
   \<and> debug_lines e (JObject obj) w2 = Inr (block_lines_spec e obj w2, world_after_block e obj w2)
   \<and> length (block_lines_spec e obj w1) = length (block_lines_spec e obj w2)
   \<and> (\<forall>i < length (block_lines_spec e obj w1).
         block_lines_spec e obj w1 ! i \<noteq> block_lines_spec e obj w2 ! i \<longrightarrow>
           (i = 4 \<and> (obj ''flowType'' \<noteq> None \<longrightarrow> \<not> supplied obj ''deviceId'')
              \<and> block_lines_spec e obj w1 ! i
                   = field_line ''deviceId'' (fst (generateDeviceId (snd (new_Date_toISOString w1))))
              \<and> block_lines_spec e obj w2 ! i
                   = field_line ''deviceId'' (fst (generateDeviceId (snd (new_Date_toISOString w2)))))
         \<or> (i = 5 \<and> obj ''flowType'' \<noteq> None \<and> \<not> supplied obj ''guestEntityHash''
              \<and> block_lines_spec e obj w1 ! i
                   = field_line ''guestEntityHash''
                       (fst (generateSimpleEntityHash e
                          (world_after_deviceId obj (snd (new_Date_toISOString w1)))))
              \<and> block_lines_spec e obj w2 ! i
                   = field_line ''guestEntityHash''
                       (fst (generateSimpleEntityHash e
                          (world_after_deviceId obj (snd (new_Date_toISOString w2))))))
         \<or> (i = length (variant_fields_spec e obj (snd (new_Date_toISOString w1))) + 2
              \<and> block_lines_spec e obj w1 ! i
                   = field_line ''timestamp'' (toISOString (clock w1 (readings w1)))
              \<and> block_lines_spec e obj w2 ! i
                   = field_line ''timestamp'' (toISOString (clock w2 (readings w2)))))"
  (is "_ \<and> _ \<and> _ \<and> (\<forall>i < _. _ \<longrightarrow> ?volatile i)")
proof -
  have "?volatile i"
    if "i < length (block_lines_spec e obj w1)"
      and "block_lines_spec e obj w1 ! i \<noteq> block_lines_spec e obj w2 ! i" for i
  proof -
    from block_lines_differ [OF that]
    consider (device) "i = 4" "obj ''flowType'' \<noteq> None \<longrightarrow> \<not> supplied obj ''deviceId''"
      | (hash) "i = 5" "obj ''flowType'' \<noteq> None" "\<not> supplied obj ''guestEntityHash''"
      | (stamp) "i = length (variant_fields_spec e obj (snd (new_Date_toISOString w1))) + 2"
      by blast
    then show ?thesis
    proof cases
      case device
      then show ?thesis
        by (simp add: block_lines_nth_deviceId supplied_or_def)
    next
      case hash
      then show ?thesis
        by (simp add: block_lines_nth_entityHash supplied_or_def)
    next
      case stamp
      moreover have "i = length (variant_fields_spec e obj (snd (new_Date_toISOString w2))) + 2"
        using stamp
          variant_fields_length
            [of e obj "snd (new_Date_toISOString w1)" "snd (new_Date_toISOString w2)"]
        by simp
      ultimately show ?thesis
        using block_lines_nth_timestamp [of e obj w1] block_lines_nth_timestamp [of e obj w2]
        by (simp add: new_Date_toISOString_def)
    qed
  qed
  then show ?thesis
    using block_lines_length [of e obj w1 w2] by (simp only: debug_lines_object) blast
qed

theorem two_runs_differ_only_in_volatile_lines_witness:
  "4 < length (block_lines_spec sample_env bare_guest sample_world)
   \<and> block_lines_spec sample_env bare_guest sample_world ! 4
       \<noteq> block_lines_spec sample_env bare_guest later_world ! 4
   \<and> \<not> supplied bare_guest ''deviceId''
   \<and> block_lines_spec sample_env bare_guest sample_world =
        [lit ''--- Debug Information (please do not edit) ---'',
         lit ''flowType: guest'',
         lit ''appId: unknown'',
         lit ''partnerName: Acme'',
         lit ''deviceId: 01234567-89ab-cdef-0123-456789abcdef'',
         lit ''guestEntityHash: user1235265c008f3a91c2'',
         lit ''guestAmount: 0'',
         lit ''guestCurrency: USD'',
         lit ''appVersion: 1.0.0'',
         lit ''timestamp: 1970-01-02T00:00:00.000Z'',
         lit ''locale: en-GB'',
         lit ''timezone: Europe/London'',
         lit ''environment: sandbox'',
         lit ''---'']
   \<and> block_lines_spec sample_env bare_guest later_world =
        [lit ''--- Debug Information (please do not edit) ---'',
         lit ''flowType: guest'',
         lit ''appId: unknown'',
         lit ''partnerName: Acme'',
         lit ''deviceId: fedcba98-7654-3210-fedc-ba9876543210'',
         lit ''guestEntityHash: user123a4cb8001b2c3d4e'',
         lit ''guestAmount: 0'',
         lit ''guestCurrency: USD'',
         lit ''appVersion: 1.0.0'',
         lit ''timestamp: 1970-01-03T00:00:00.000Z'',
         lit ''locale: en-GB'',
         lit ''timezone: Europe/London'',
         lit ''environment: sandbox'',
         lit ''---'']"
  using two_runs_differ_only_in_volatile_lines [of sample_env bare_guest sample_world later_world]
  by (simp add: sample_env_def bare_guest_def spec_defs sample_evals later_evals)

section \<open>Launch failure\<close>

subsection \<open>What encodeURIComponent returns\<close>








subsection \<open>Composing the mail target\<close>









section \<open>Falsy fields of a guest input\<close>

lemma to_str_truthy_nonempty: "truthy v \<Longrightarrow> to_str v \<noteq> []"
  by (cases v) simp_all

lemma supplied_or_nonempty: "d \<noteq> [] \<Longrightarrow> supplied_or obj k d \<noteq> []"
  by (auto simp add: supplied_or_def supplied_def field_text_def to_str_truthy_nonempty
      split: option.splits)

lemma context_or_nonempty: "d \<noteq> [] \<Longrightarrow> context_or v d \<noteq> []"
  by (simp add: context_or_def split: option.splits)

lemma generateDeviceId_loop_grows:
  "length result \<le> length (fst (generateDeviceId_loop i result w))"
proof (induction i result w rule: generateDeviceId_loop.induct)
  case (1 i result w)
  show ?case
  proof (cases "i < 32")
    case True
    have unfold: "generateDeviceId_loop i result w =
        generateDeviceId_loop (i + 1)
          ((if i = 8 \<or> i = 12 \<or> i = 16 \<or> i = 20 then result @ (lit ''-'') else result)
             @ char_at hex_chars (floor16 (fst (Math_random w))))
          (snd (Math_random w))"
      using True by (subst generateDeviceId_loop.simps) (simp add: Let_def)
    have "length result \<le> length ((if i = 8 \<or> i = 12 \<or> i = 16 \<or> i = 20 then result @ (lit ''-'') else result)
            @ char_at hex_chars (floor16 (fst (Math_random w))))"
      by simp
    also have "\<dots> \<le> length (fst (generateDeviceId_loop i result w))"
      using "1" [OF True refl refl] by (simp only: unfold)
    finally show ?thesis .
  next
    case False
    then show ?thesis
      by (simp add: generateDeviceId_loop_stop)
  qed
qed

lemma generateDeviceId_nonempty: "fst (generateDeviceId w) \<noteq> []"
proof -
  have "1 \<le> length (char_at hex_chars (floor16 (randoms w (drawn w))))"
    by (simp add: char_at_def)
  also have "\<dots> \<le> length (fst (generateDeviceId w))"
    using generateDeviceId_loop_grows
            [of "char_at hex_chars (floor16 (randoms w (drawn w)))" 1 "w\<lparr>drawn := drawn w + 1\<rparr>"]
    by (simp add: generateDeviceId_def generateDeviceId_loop_step [of 0])
  finally show ?thesis by auto
qed

lemma digit_char_not_hyphen: "d < 36 \<Longrightarrow> digit_char d \<noteq> unit_of (CHR ''-'')"
  using nth_mem [of d "''0123456789abcdefghijklmnopqrstuvwxyz''"]
  by (auto simp add: digit_char_def)

lemma toString_radix_16_digit: "\<exists>u\<in>set (toString_radix 16 n). u \<noteq> unit_of (CHR ''-'')"
proof (cases "n < 16")
  case True
  then show ?thesis
    by (simp add: toString_radix_last digit_char_not_hyphen)
next
  case False
  then show ?thesis
    by (simp add: toString_radix_more digit_char_not_hyphen)
qed

lemma generateSimpleEntityHash_nonempty: "fst (generateSimpleEntityHash e w) \<noteq> []"
  using toString_radix_16_digit [of "fst (Date_now w)"]
  by (auto simp add: generateSimpleEntityHash_def Let_def case_prod_beta strip_hyphens_def
      filter_empty_conv)

lemma optional_fields_cong:
  assumes "\<And>k. k \<in> set ks \<Longrightarrow> supplied obj k = supplied obj' k"
    and "\<And>k. k \<in> set ks \<Longrightarrow> supplied obj k \<Longrightarrow> field_text obj k = field_text obj' k"
  shows "optional_fields obj ks = optional_fields obj' ks"
  using assms by (induction ks) (auto simp add: optional_fields_def)

lemma block_lines_cong:
  assumes s: "\<And>k. supplied obj k = supplied obj' k"
    and t: "\<And>k. supplied obj k \<Longrightarrow> field_text obj k = field_text obj' k"
    and f: "obj ''flowType'' = obj' ''flowType''"
  shows "block_lines_spec e obj w = block_lines_spec e obj' w"
    and "world_after_block e obj w = world_after_block e obj' w"
proof -
  have so: "supplied_or obj k d = supplied_or obj' k d" for k d
    using s [of k] t [of k] by (simp add: supplied_or_def)
  have opt: "optional_fields obj ks = optional_fields obj' ks" for ks
    using s t by (intro optional_fields_cong) auto
  have ft: "field_text obj ''flowType'' = field_text obj' ''flowType''"
    by (simp add: field_text_def f)
  have wd: "world_after_deviceId obj u = world_after_deviceId obj' u" for u
    by (simp add: world_after_deviceId_def s)
  have we: "world_after_entityHash e obj u = world_after_entityHash e obj' u" for u
    by (simp add: world_after_entityHash_def s)
  show "block_lines_spec e obj w = block_lines_spec e obj' w"
    by (simp add: block_lines_spec_def variant_fields_spec_def guest_fields_spec_def
        transaction_fields_spec_def trailer_spec_def closing_spec_def so opt ft wd f)
  show "world_after_block e obj w = world_after_block e obj' w"
    by (simp add: world_after_block_def Let_def wd we f)
qed

lemma falsy_update_supplied:
  assumes "\<not> truthy v"
  shows "supplied (obj(k \<mapsto> v)) k' = supplied (obj(k := None)) k'"
    and "supplied (obj(k \<mapsto> v)) k' \<Longrightarrow> field_text (obj(k \<mapsto> v)) k' = field_text (obj(k := None)) k'"
  using assms by (auto simp add: supplied_def field_text_def)

lemma guest_keys_not_flowType:
  "k \<in> set (guest_fallback_keys @ guest_conditional_keys) \<Longrightarrow> k \<noteq> ''flowType''"
  by (auto simp add: guest_fallback_keys_def guest_conditional_keys_def)

lemma conditional_line_absent:
  assumes "k \<in> set guest_conditional_keys" and "\<not> supplied obj k" and "obj ''flowType'' \<noteq> None"
  shows "field_line k val \<notin> set (block_lines_spec e obj w)"
proof -
  have a: "field_line k val \<notin> set (optional_fields obj guest_conditional_keys)"
    using assms(1,2)
    by (auto dest!: optional_fields_mem simp add: guest_conditional_keys_def field_line_def)
  have b: "field_line k val \<notin> set (optional_fields obj [''errorMessage'', ''debugMessage''])"
    using assms(1)
    by (auto dest!: optional_fields_mem simp add: guest_conditional_keys_def field_line_def)
  show ?thesis
    using assms(1,3) a b
    by (auto simp add: block_lines_spec_def variant_fields_spec_def guest_fields_spec_def
        trailer_spec_def context_fields_spec_def closing_spec_def guest_conditional_keys_def
        field_line_def header_line_def footer_line_def sandbox_line_def)
qed

text \<open>
  C10. For every input with a \<^verbatim>\<open>flowType\<close> key, a falsy value (the empty string,
  \<^verbatim>\<open>undefined\<close>, \<^verbatim>\<open>null\<close>) given for \<open>appId\<close>, \<open>partnerName\<close>, \<open>deviceId\<close>,
  \<open>guestEntityHash\<close>, \<open>guestAmount\<close>, \<open>guestCurrency\<close>, \<open>guestAsset\<close>, \<open>guestNetwork\<close>,
  \<open>guestPaymentMethod\<close> or \<open>guestTransactionIdAtCreate\<close> gives exactly the result of
  the input without that key. The six lines with a fallback, at indices 2 to 7, never
  carry an empty value; and a conditional field given a falsy value has no line at all.
\<close>

theorem falsy_guest_field_counts_as_absent:
  assumes "obj ''flowType'' \<noteq> None"
    and "k \<in> set (guest_fallback_keys @ guest_conditional_keys)"
    and "\<not> truthy v"
  shows "debug_lines e (JObject (obj(k \<mapsto> v))) w = debug_lines e (JObject (obj(k := None))) w
         \<and> buildDebugBlock e (JObject (obj(k \<mapsto> v))) w
             = buildDebugBlock e (JObject (obj(k := None))) w
         \<and> debug_lines e (JObject (obj(k \<mapsto> v))) w
             = Inr (block_lines_spec e (obj(k \<mapsto> v)) w, world_after_block e (obj(k \<mapsto> v)) w)
         \<and> (\<exists>a p d g m c.
               take 6 (drop 2 (block_lines_spec e (obj(k \<mapsto> v)) w)) =
                 [field_line ''appId'' a, field_line ''partnerName'' p, field_line ''deviceId'' d,
                  field_line ''guestEntityHash'' g, field_line ''guestAmount'' m,
                  field_line ''guestCurrency'' c]
               \<and> a \<noteq> [] \<and> p \<noteq> [] \<and> d \<noteq> [] \<and> g \<noteq> [] \<and> m \<noteq> [] \<and> c \<noteq> [])
         \<and> (k \<in> set guest_conditional_keys \<longrightarrow>
               (\<forall>val. field_line k val \<notin> set (block_lines_spec e (obj(k \<mapsto> v)) w)))"
proof -
  let ?o = "obj(k \<mapsto> v)"
  have k: "k \<noteq> ''flowType''"
    using assms(2) by (rule guest_keys_not_flowType)
  then have guest: "?o ''flowType'' \<noteq> None"
    using assms(1) by simp
  have same: "block_lines_spec e ?o w = block_lines_spec e (obj(k := None)) w"
    "world_after_block e ?o w = world_after_block e (obj(k := None)) w"
    using falsy_update_supplied [OF assms(3), of obj k] k
    by (intro block_lines_cong; simp)+
  have nonempty: "\<exists>a p d g m c.
               take 6 (drop 2 (block_lines_spec e ?o w)) =
                 [field_line ''appId'' a, field_line ''partnerName'' p, field_line ''deviceId'' d,
                  field_line ''guestEntityHash'' g, field_line ''guestAmount'' m,
                  field_line ''guestCurrency'' c]
               \<and> a \<noteq> [] \<and> p \<noteq> [] \<and> d \<noteq> [] \<and> g \<noteq> [] \<and> m \<noteq> [] \<and> c \<noteq> []"
  proof -
    have "take 6 (drop 2 (block_lines_spec e ?o w)) =
            [field_line ''appId''
               (supplied_or ?o ''appId'' (context_or (EXPO_PUBLIC_CDP_PROJECT_ID e) (lit ''unknown''))),
             field_line ''partnerName'' (supplied_or ?o ''partnerName'' PARTNER_NAME),
             field_line ''deviceId''
               (supplied_or ?o ''deviceId'' (fst (generateDeviceId (snd (new_Date_toISOString w))))),
             field_line ''guestEntityHash''
               (supplied_or ?o ''guestEntityHash''
                  (fst (generateSimpleEntityHash e
                          (world_after_deviceId ?o (snd (new_Date_toISOString w)))))),
             field_line ''guestAmount'' (supplied_or ?o ''guestAmount'' (lit ''0'')),
             field_line ''guestCurrency'' (supplied_or ?o ''guestCurrency'' (lit ''USD''))]"
      using guest
      by (simp add: block_lines_spec_def variant_fields_spec_def guest_fields_spec_def)
    moreover have "supplied_or ?o ''appId'' (context_or (EXPO_PUBLIC_CDP_PROJECT_ID e) (lit ''unknown'')) \<noteq> []"
      "supplied_or ?o ''partnerName'' PARTNER_NAME \<noteq> []"
      "supplied_or ?o ''deviceId'' (fst (generateDeviceId (snd (new_Date_toISOString w)))) \<noteq> []"
      "supplied_or ?o ''guestEntityHash''
         (fst (generateSimpleEntityHash e
                 (world_after_deviceId ?o (snd (new_Date_toISOString w))))) \<noteq> []"
      "supplied_or ?o ''guestAmount'' (lit ''0'') \<noteq> []"
      "supplied_or ?o ''guestCurrency'' (lit ''USD'') \<noteq> []"
      by (simp_all add: supplied_or_nonempty context_or_nonempty generateDeviceId_nonempty
          generateSimpleEntityHash_nonempty PARTNER_NAME_def)
    ultimately show ?thesis by blast
  qed
  have unsupplied: "\<not> supplied ?o k"
    using assms(3) by (simp add: supplied_def)
  have omitted: "k \<in> set guest_conditional_keys \<longrightarrow>
               (\<forall>val. field_line k val \<notin> set (block_lines_spec e ?o w))"
    using conditional_line_absent [OF _ unsupplied guest] by blast
  show ?thesis
    using same nonempty omitted by (simp add: debug_lines_object buildDebugBlock_object)
qed


theorem falsy_guest_field_counts_as_absent_witness:
  "sample_guest ''flowType'' \<noteq> None
   \<and> ''guestAmount'' \<in> set (guest_fallback_keys @ guest_conditional_keys)
   \<and> ''guestAsset'' \<in> set guest_conditional_keys
   \<and> \<not> truthy (JString [])
   \<and> debug_lines sample_env (JObject (sample_guest(''guestAmount'' \<mapsto> JString []))) sample_world
       = debug_lines sample_env (JObject (sample_guest(''guestAmount'' := None))) sample_world
   \<and> block_lines_spec sample_env (sample_guest(''guestAmount'' \<mapsto> JString [])) sample_world ! 6
       = lit ''guestAmount: 0''
   \<and> (lit ''guestAsset: '') \<notin> set (block_lines_spec sample_env (sample_guest(''guestAsset'' \<mapsto> JString []))
                                 sample_world)"
  using falsy_guest_field_counts_as_absent
          [of sample_guest "''guestAmount''" "JString []" sample_env sample_world]
    falsy_guest_field_counts_as_absent
          [of sample_guest "''guestAsset''" "JString []" sample_env sample_world,
           THEN conjunct2, THEN conjunct2, THEN conjunct2, THEN conjunct2, rule_format, of "[]"]
  by (simp add: sample_guest_def sample_env_def guest_fallback_keys_def guest_conditional_keys_def
      spec_defs sample_evals)

end
